theory Spec2Isabelle
  imports Main "HOL-Library.Word"
begin

section \<open>Python values used by zedToKittiDataset.py\<close>

subsection \<open>Decimal text of integers\<close>

text \<open>
  \<open>str(n)\<close> for a non-negative Python int, and the format specification \<open>06d\<close>
  (a minimum width of 6, filled with zeros on the left; a longer number is not cut).
\<close>

definition digit_char :: "nat \<Rightarrow> char" where
  "digit_char d = ''0123456789'' ! d"

fun py_str_nat :: "nat \<Rightarrow> string" where
  "py_str_nat n = (if n < 10 then [digit_char n] else py_str_nat (n div 10) @ [digit_char (n mod 10)])"

declare py_str_nat.simps [simp del]

definition zero_fill :: "nat \<Rightarrow> string \<Rightarrow> string" where
  "zero_fill w s = replicate (w - length s) (CHR ''0'') @ s"

definition format_06d :: "nat \<Rightarrow> string" where
  "format_06d n = zero_fill 6 (py_str_nat n)"

subsection \<open>Floats\<close>

text \<open>
  A Python float is an IEEE 754 binary64 value. \<open>Finite s m e\<close> stands for
  \<open>(-1)^s * m * 2^e\<close>, kept in the unique form with \<open>m\<close> odd (or \<open>m = 0\<close>
  and \<open>e = 0\<close>), so that equal values are equal terms; the sign of zero is kept.
\<close>

datatype pyfloat = Finite bool nat int | Infinite bool | NaN

fun bit_length :: "nat \<Rightarrow> nat" where
  "bit_length n = (if n = 0 then 0 else Suc (bit_length (n div 2)))"

declare bit_length.simps [simp del]

fun strip_zeros :: "nat \<Rightarrow> int \<Rightarrow> nat \<times> int" where
  "strip_zeros m e = (if m = 0 then (0, 0) else if even m then strip_zeros (m div 2) (e + 1) else (m, e))"

declare strip_zeros.simps [simp del]

text \<open>\<open>round_half_even m k\<close> is \<open>m / 2^k\<close> rounded to the nearest integer, ties to even.\<close>

definition round_half_even :: "nat \<Rightarrow> nat \<Rightarrow> nat" where
  "round_half_even m k =
     (let q = m div 2 ^ k; r = m mod 2 ^ k
      in if 2 * r > 2 ^ k \<or> (2 * r = 2 ^ k \<and> odd q) then q + 1 else q)"

text \<open>
  The binary64 value nearest to \<open>(-1)^s * m * 2^e\<close>: 53 bits of precision, the least
  exponent of the last place \<open>-1074\<close> (subnormal numbers), ties to even, and infinity
  from \<open>2^1024\<close> on.
\<close>

definition round_binary64 :: "bool \<Rightarrow> nat \<Rightarrow> int \<Rightarrow> pyfloat" where
  "round_binary64 s m e =
     (if m = 0 then Finite s 0 0
      else
        let lsb = max (e + int (bit_length m) - 53) (- 1074);
            k = nat (lsb - e);
            q = round_half_even m k;
            e' = e + int k
        in if int (bit_length q) + e' > 1024 then Infinite s
           else (case strip_zeros q e' of (m', e'') \<Rightarrow> Finite s m' e''))"

text \<open>
  A float literal of the source (\<open>1e-9\<close>) and the floats of the spec's examples
  (\<open>700.0\<close>, \<open>0.12\<close>): the binary64 value nearest to the fraction \<open>n / d\<close>. The
  quotient is computed to at least 56 bits with a sticky last bit, then rounded once.
\<close>

definition py_float_literal :: "bool \<Rightarrow> nat \<Rightarrow> nat \<Rightarrow> pyfloat" where
  "py_float_literal s n d =
     (let k = bit_length d + 55;
          q = (n * 2 ^ k) div d;
          r = (n * 2 ^ k) mod d
      in round_binary64 s (2 * q + (if r = 0 then 0 else 1)) (- int k - 1))"

text \<open>The conversion int to float that \<open>ts * 1e-9\<close> applies to its int operand.\<close>

definition py_float_of_nat :: "nat \<Rightarrow> pyfloat" where
  "py_float_of_nat n = round_binary64 False n 0"

text \<open>Unary minus and the product of two floats.\<close>

fun py_float_neg :: "pyfloat \<Rightarrow> pyfloat" where
  "py_float_neg (Finite s m e) = Finite (\<not> s) m e"
| "py_float_neg (Infinite s) = Infinite (\<not> s)"
| "py_float_neg NaN = NaN"

fun py_float_mul :: "pyfloat \<Rightarrow> pyfloat \<Rightarrow> pyfloat" where
  "py_float_mul NaN y = NaN"
| "py_float_mul x NaN = NaN"
| "py_float_mul (Infinite s) (Infinite t) = Infinite (s \<noteq> t)"
| "py_float_mul (Infinite s) (Finite t n f) = (if n = 0 then NaN else Infinite (s \<noteq> t))"
| "py_float_mul (Finite s m e) (Infinite t) = (if m = 0 then NaN else Infinite (s \<noteq> t))"
| "py_float_mul (Finite s m e) (Finite t n f) = round_binary64 (s \<noteq> t) (m * n) (e + f)"

declare py_float_mul.simps [simp del]

text \<open>
  The format specification \<open>.9f\<close>: the exact value of the float rounded, ties to even,
  to 9 digits after the point; the sign is kept also where the digits are all zero.
\<close>

fun format_9f :: "pyfloat \<Rightarrow> string" where
  "format_9f NaN = ''nan''"
| "format_9f (Infinite s) = (if s then ''-inf'' else ''inf'')"
| "format_9f (Finite s m e) =
     (let N = round_half_even (m * 10 ^ 9 * 2 ^ nat e) (nat (- e))
      in (if s then ''-'' else '''') @ py_str_nat (N div 10 ^ 9) @ ''.''
         @ zero_fill 9 (py_str_nat (N mod 10 ^ 9)))"

declare format_9f.simps(3) [simp del]

subsection \<open>Paths (posixpath)\<close>

text \<open>\<open>str.rfind\<close> of one character: the index of its last occurrence, or \<open>-1\<close>.\<close>

definition rfind :: "char \<Rightarrow> string \<Rightarrow> int" where
  "rfind c p =
     (if c \<in> set p then int (length p) - 1 - int (length (takeWhile (\<lambda>x. x \<noteq> c) (rev p)))
      else - 1)"

text \<open>
  The loop of \<open>genericpath._splitext\<close> that skips leading dots of the file name: from
  \<open>filenameIndex\<close> up to \<open>dotIndex\<close>, the first character that is not a dot makes
  the path split at \<open>dotIndex\<close>.
\<close>

function skip_leading_dots :: "string \<Rightarrow> nat \<Rightarrow> nat \<Rightarrow> bool" where
  "skip_leading_dots p filenameIndex dotIndex =
     (if filenameIndex < dotIndex
      then (if take 1 (drop filenameIndex p) \<noteq> ''.'' then True
            else skip_leading_dots p (filenameIndex + 1) dotIndex)
      else False)"
  by pat_completeness auto
termination
  by (relation "measure (\<lambda>(p, i, d). d - i)") auto

declare skip_leading_dots.simps [simp del]

definition splitext :: "string \<Rightarrow> string \<times> string" where
  "splitext p =
     (let sepIndex = rfind (CHR ''/'') p;
          dotIndex = rfind (CHR ''.'') p
      in if dotIndex > sepIndex \<and> skip_leading_dots p (nat (sepIndex + 1)) (nat dotIndex)
         then (take (nat dotIndex) p, drop (nat dotIndex) p)
         else (p, []))"

text \<open>\<open>os.path.join\<close> of two components.\<close>

definition path_join :: "string \<Rightarrow> string \<Rightarrow> string" where
  "path_join a b =
     (if take 1 b = ''/'' then b
      else if a = [] \<or> last a = CHR ''/'' then a @ b
      else a @ ''/'' @ b)"

section \<open>The recording reader (pyzed.sl)\<close>

datatype ERROR_CODE =
  SUCCESS | FAILURE | INVALID_SVO_FILE | END_OF_SVOFILE_REACHED | CORRUPTED_FRAME
  | CAMERA_NOT_INITIALIZED

datatype UNIT = MILLIMETER | CENTIMETER | METER | INCH | FOOT

datatype VIEW = LEFT | RIGHT | LEFT_UNRECTIFIED | RIGHT_UNRECTIFIED

datatype TIME_REFERENCE = IMAGE | CURRENT

text \<open>An image buffer: rows of pixels, a pixel being its channel values.\<close>

type_synonym image = "nat list list list"

record camera_parameters =
  fx :: pyfloat
  fy :: pyfloat
  cx :: pyfloat
  cy :: pyfloat

record calibration_parameters =
  left_cam :: camera_parameters
  right_cam :: camera_parameters
  stereo_translation :: "pyfloat \<times> pyfloat \<times> pyfloat"

record frame =
  view_data :: "VIEW \<Rightarrow> image"
  timestamp_ns :: "TIME_REFERENCE \<Rightarrow> 64 word"

text \<open>
  What the reader finds in a recording file: the result of opening it, its calibration
  block in a given unit, and for the \<open>i\<close>-th call of \<open>grab\<close> the returned code and
  the frame it makes current.
\<close>

record svo =
  open_status :: ERROR_CODE
  calibration :: "UNIT \<Rightarrow> calibration_parameters"
  grab_status :: "nat \<Rightarrow> ERROR_CODE"
  frames :: "nat \<Rightarrow> frame"

record init_parameters =
  svo_file :: string
  coordinate_units :: UNIT
  svo_real_time_mode :: bool

datatype sdk_call =
  Call_open init_parameters
  | Call_get_camera_information
  | Call_grab
  | Call_retrieve_image VIEW
  | Call_get_timestamp TIME_REFERENCE
  | Call_close

text \<open>
  The handle \<open>sl.Camera()\<close>: the recording it has open (none before \<open>open\<close>
  succeeds and after \<open>close\<close>), the unit chosen at \<open>open\<close>, and the number of
  \<open>grab\<close> calls so far.
\<close>

record camera =
  cam_svo :: "svo option"
  cam_units :: UNIT
  cam_position :: nat

definition new_camera :: camera where
  "new_camera = \<lparr>cam_svo = None, cam_units = MILLIMETER, cam_position = 0\<rparr>"

definition zero_parameters :: camera_parameters where
  "zero_parameters = \<lparr>fx = Finite False 0 0, fy = Finite False 0 0, cx = Finite False 0 0,
     cy = Finite False 0 0\<rparr>"

definition zero_calibration :: calibration_parameters where
  "zero_calibration = \<lparr>left_cam = zero_parameters, right_cam = zero_parameters,
     stereo_translation = (Finite False 0 0, Finite False 0 0, Finite False 0 0)\<rparr>"

definition camera_open :: "(string \<Rightarrow> svo) \<Rightarrow> init_parameters \<Rightarrow> camera \<Rightarrow> ERROR_CODE \<times> camera" where
  "camera_open disk params cam =
     (let r = disk (svo_file params)
      in (open_status r,
          cam\<lparr>cam_svo := (if open_status r = SUCCESS then Some r else None),
              cam_units := coordinate_units params, cam_position := 0\<rparr>))"

definition get_camera_information :: "camera \<Rightarrow> calibration_parameters \<times> camera" where
  "get_camera_information cam =
     ((case cam_svo cam of None \<Rightarrow> zero_calibration | Some r \<Rightarrow> calibration r (cam_units cam)),
      cam)"

definition grab :: "camera \<Rightarrow> ERROR_CODE \<times> camera" where
  "grab cam =
     (case cam_svo cam of
        None \<Rightarrow> (CAMERA_NOT_INITIALIZED, cam)
      | Some r \<Rightarrow> (grab_status r (cam_position cam),
                   cam\<lparr>cam_position := cam_position cam + 1\<rparr>))"

definition current_frame :: "camera \<Rightarrow> frame option" where
  "current_frame cam =
     (case cam_svo cam of
        None \<Rightarrow> None
      | Some r \<Rightarrow> (if cam_position cam = 0 then None else Some (frames r (cam_position cam - 1))))"

definition retrieve_image :: "VIEW \<Rightarrow> camera \<Rightarrow> image \<times> camera" where
  "retrieve_image v cam =
     ((case current_frame cam of None \<Rightarrow> [] | Some f \<Rightarrow> view_data f v),
      cam)"

definition get_timestamp :: "TIME_REFERENCE \<Rightarrow> camera \<Rightarrow> 64 word \<times> camera" where
  "get_timestamp t cam =
     ((case current_frame cam of None \<Rightarrow> 0 | Some f \<Rightarrow> timestamp_ns f t),
      cam)"

definition camera_close :: "camera \<Rightarrow> unit \<times> camera" where
  "camera_close cam = ((), cam\<lparr>cam_svo := None\<rparr>)"

section \<open>The output directory, the console and the trace\<close>

text \<open>
  A file holds text, or the image that \<open>cv2.imwrite\<close> encoded into it. The model of
  the filesystem is the set of directories and the files with their contents; its calls
  succeed (the failures of the operating system are not part of it). Every call on the
  filesystem, on the handle and of \<open>print\<close> is also recorded, in order, in the
  trace.
\<close>

datatype file_content = Text string | Png image

datatype message =
  Opening_Input_File string
  | Failed_to_open ERROR_CODE
  | Exported nat string
  | Saved_calibration string

datatype fs_call =
  Makedirs string
  | Open_w string
  | Write string string
  | Close string
  | Imwrite string image

datatype event = Fs fs_call | Sdk sdk_call | Print message

record state =
  dirs :: "string set"
  files :: "string \<rightharpoonup> file_content"
  zed :: camera
  trace :: "event list"

definition emit :: "event \<Rightarrow> state \<Rightarrow> state" where
  "emit ev st = st\<lparr>trace := trace st @ [ev]\<rparr>"

text \<open>
  \<open>os.makedirs(p, exist_ok=True)\<close>: the directory and the directories above it (the
  prefixes of the path that end before a separator) exist afterwards.
\<close>

definition parents :: "string \<Rightarrow> string list" where
  "parents p = [take i p. i \<leftarrow> [1..<length p], p ! i = CHR ''/'']"

definition makedirs :: "string \<Rightarrow> state \<Rightarrow> state" where
  "makedirs p st = emit (Fs (Makedirs p)) (st\<lparr>dirs := dirs st \<union> set (parents p) \<union> {p}\<rparr>)"

text \<open>
  \<open>open(path, 'w')\<close> creates the file or empties it, \<open>write\<close> appends to it,
  \<open>close\<close> leaves it as it is.
\<close>

definition py_open_w :: "string \<Rightarrow> state \<Rightarrow> state" where
  "py_open_w path st = emit (Fs (Open_w path)) (st\<lparr>files := (files st)(path \<mapsto> Text [])\<rparr>)"

definition text_of :: "file_content option \<Rightarrow> string" where
  "text_of c = (case c of Some (Text t) \<Rightarrow> t | _ \<Rightarrow> [])"

definition file_write :: "string \<Rightarrow> string \<Rightarrow> state \<Rightarrow> state" where
  "file_write path s st =
     emit (Fs (Write path s)) (st\<lparr>files := (files st)(path \<mapsto> Text (text_of (files st path) @ s))\<rparr>)"

definition file_close :: "string \<Rightarrow> state \<Rightarrow> state" where
  "file_close path st = emit (Fs (Close path)) st"

definition imwrite :: "string \<Rightarrow> image \<Rightarrow> state \<Rightarrow> state" where
  "imwrite path img st = emit (Fs (Imwrite path img)) (st\<lparr>files := (files st)(path \<mapsto> Png img)\<rparr>)"

definition py_print :: "message \<Rightarrow> state \<Rightarrow> state" where
  "py_print m st = emit (Print m) st"

text \<open>A call on the handle \<open>zed\<close>.\<close>

definition on_zed :: "sdk_call \<Rightarrow> (camera \<Rightarrow> 'a \<times> camera) \<Rightarrow> state \<Rightarrow> 'a \<times> state" where
  "on_zed c f st = (case f (zed st) of (r, cam) \<Rightarrow> (r, emit (Sdk c) (st\<lparr>zed := cam\<rparr>)))"

section \<open>zed2_to_kitti\<close>

datatype outcome = Returned | SystemExit int

text \<open>Lines 27-28: the output directory.\<close>

definition resolve_output_dir :: "string \<Rightarrow> string option \<Rightarrow> string" where
  "resolve_output_dir input_file output_dir =
     (case output_dir of
        None \<Rightarrow> fst (splitext input_file) @ ''_kitti_dataset''
      | Some d \<Rightarrow> d)"

text \<open>Lines 39-47: the handle is created and the recording opened.\<close>

definition open_recording :: "(string \<Rightarrow> svo) \<Rightarrow> string \<Rightarrow> state \<Rightarrow> ERROR_CODE \<times> state" where
  "open_recording disk input_file st =
     (let st1 = st\<lparr>zed := new_camera\<rparr>;
          st2 = py_print (Opening_Input_File input_file) st1;
          init_params = \<lparr>svo_file = input_file, coordinate_units = METER,
                         svo_real_time_mode = False\<rparr>;
          st3 = st2\<lparr>zed := new_camera\<rparr>
      in on_zed (Call_open init_params) (camera_open disk init_params) st3)"

text \<open>
  Lines 54-59: the camera parameters of both sides and the first component of the stereo
  translation, each from a call of \<open>get_camera_information\<close>.
\<close>

definition read_calibration ::
  "state \<Rightarrow> (camera_parameters \<times> camera_parameters \<times> pyfloat) \<times> state" where
  "read_calibration st =
     (case on_zed Call_get_camera_information get_camera_information st of (cam_info, st1) \<Rightarrow>
      case on_zed Call_get_camera_information get_camera_information st1 of (info_left, st2) \<Rightarrow>
      case on_zed Call_get_camera_information get_camera_information st2 of (info_right, st3) \<Rightarrow>
      case on_zed Call_get_camera_information get_camera_information st3 of
        (calibration_params, st4) \<Rightarrow>
          ((left_cam info_left, right_cam info_right,
            fst (stereo_translation calibration_params)), st4))"

text \<open>\<open>get_data()[:, :, :3]\<close>: the first three channels of every pixel.\<close>

definition first_3_channels :: "image \<Rightarrow> image" where
  "first_3_channels img = map (map (take 3)) img"

text \<open>The literal \<open>1e-9\<close>.\<close>

definition float_1e_9 :: pyfloat where
  "float_1e_9 = py_float_literal False 1 (10 ^ 9)"

text \<open>The line of \<open>times.txt\<close> for a timestamp: \<open>f"{ts * 1e-9:.9f}\n"\<close>.\<close>

definition times_line :: "64 word \<Rightarrow> string" where
  "times_line ts = format_9f (py_float_mul (py_float_of_nat (unat ts)) float_1e_9) @ [CHR 0x0A]"

text \<open>Lines 75-95: the body of the loop after a successful \<open>grab\<close>.\<close>

definition export_frame :: "string \<Rightarrow> string \<Rightarrow> string \<Rightarrow> nat \<Rightarrow> state \<Rightarrow> state" where
  "export_frame image_0_dir image_1_dir times_file frame_count st =
     (case on_zed (Call_retrieve_image LEFT) (retrieve_image LEFT) st of (left_image, st1) \<Rightarrow>
      case on_zed (Call_retrieve_image RIGHT) (retrieve_image RIGHT) st1 of (right_image, st2) \<Rightarrow>
      case on_zed (Call_get_timestamp IMAGE) (get_timestamp IMAGE) st2 of (ts, st3) \<Rightarrow>
        let left_np = first_3_channels left_image;
            right_np = first_3_channels right_image;
            filename_left = format_06d frame_count @ ''.png'';
            filename_right = format_06d frame_count @ ''.png'';
            st4 = imwrite (path_join image_0_dir filename_left) left_np st3;
            st5 = imwrite (path_join image_1_dir filename_right) right_np st4
        in file_write times_file (times_line ts) st5)"

text \<open>
  Lines 72-100: \<open>while True\<close>, left by \<open>break\<close> at the first \<open>grab\<close> that does not
  return \<open>SUCCESS\<close>. The result is \<open>None\<close> when the loop never ends.
\<close>

partial_function (option) export_loop ::
  "string \<Rightarrow> string \<Rightarrow> string \<Rightarrow> nat \<Rightarrow> state \<Rightarrow> (nat \<times> state) option" where
  "export_loop image_0_dir image_1_dir times_file frame_count st =
     (case on_zed Call_grab grab st of (status, st1) \<Rightarrow>
        if status = SUCCESS
        then export_loop image_0_dir image_1_dir times_file (frame_count + 1)
               (export_frame image_0_dir image_1_dir times_file frame_count st1)
        else Some (frame_count, st1))"

declare export_loop.simps [code]

text \<open>Lines 126-151: the two lines of the calibration file.\<close>

definition calib_lines :: "camera_parameters \<Rightarrow> camera_parameters \<Rightarrow> pyfloat \<Rightarrow> string list" where
  "calib_lines left_cam_params right_cam_params baseline =
     (let fx_left = fx left_cam_params;
          fy_left = fy left_cam_params;
          cx_left = cx left_cam_params;
          cy_left = cy left_cam_params;
          fx_right = fx right_cam_params;
          fy_right = fy right_cam_params;
          cx_right = cx right_cam_params;
          cy_right = cy right_cam_params;
          tx = py_float_mul (py_float_neg fx_left) baseline;
          P0 = ''P0: '' @ format_9f fx_left @ '' 0.0 '' @ format_9f cx_left @ '' 0.0 0.0 ''
               @ format_9f fy_left @ '' '' @ format_9f cy_left @ '' 0.0 0.0 0.0 1.0 0.0'';
          P1 = ''P1: '' @ format_9f fx_right @ '' 0.0 '' @ format_9f cx_right @ '' ''
               @ format_9f tx @ '' 0.0 '' @ format_9f fy_right @ '' '' @ format_9f cy_right
               @ '' 0.0 0.0 0.0 1.0 0.0''
      in [P0, P1])"

text \<open>Lines 153-157: the calibration file is written, one line after the other.\<close>

definition write_calibration :: "string \<Rightarrow> string list \<Rightarrow> state \<Rightarrow> state" where
  "write_calibration output_dir calib_str st =
     (let f = path_join output_dir ''calib.txt'';
          st1 = py_open_w f st;
          st2 = fold (\<lambda>line. file_write f (line @ [CHR 0x0A])) calib_str st1;
          st3 = file_close f st2
      in py_print (Saved_calibration (path_join output_dir ''calib.txt'')) st3)"

text \<open>
  The whole function. \<open>disk\<close> is what the reader finds at a path. The result is
  \<open>None\<close> when the loop over the frames never ends.
\<close>

definition zed2_to_kitti ::
  "(string \<Rightarrow> svo) \<Rightarrow> string \<Rightarrow> string option \<Rightarrow> state \<Rightarrow> (outcome \<times> state) option" where
  "zed2_to_kitti disk input_file output_dir_arg st =
     (let output_dir = resolve_output_dir input_file output_dir_arg;
          image_0_dir = path_join output_dir ''image_0'';
          image_1_dir = path_join output_dir ''image_1'';
          st1 = makedirs image_1_dir (makedirs image_0_dir st);
          times_file = path_join output_dir ''times.txt'';
          st2 = py_open_w times_file st1
      in case open_recording disk input_file st2 of (status, st3) \<Rightarrow>
           if status \<noteq> SUCCESS then Some (SystemExit 1, py_print (Failed_to_open status) st3)
           else
             case read_calibration st3 of ((left_cam_params, right_cam_params, baseline), st4) \<Rightarrow>
             case export_loop image_0_dir image_1_dir times_file 0 st4 of
               None \<Rightarrow> None
             | Some (frame_count, st5) \<Rightarrow>
                 let st6 = py_print (Exported frame_count output_dir) st5;
                     st7 = file_close times_file st6;
                     st8 = snd (on_zed Call_close camera_close st7)
                 in Some (Returned,
                      write_calibration output_dir
                        (calib_lines left_cam_params right_cam_params baseline) st8))"

text \<open>Lines 160-167: the exit status of the process.\<close>

definition exit_status :: "outcome \<Rightarrow> int" where
  "exit_status out = (case out of Returned \<Rightarrow> 0 | SystemExit c \<Rightarrow> c)"

definition main :: "(string \<Rightarrow> svo) \<Rightarrow> string \<Rightarrow> string option \<Rightarrow> state \<Rightarrow> (int \<times> state) option" where
  "main disk input_file output_dir st =
     map_option (\<lambda>(out, st'). (exit_status out, st')) (zed2_to_kitti disk input_file output_dir st)"

primrec exported :: "string \<Rightarrow> string \<Rightarrow> string \<Rightarrow> nat \<Rightarrow> nat \<Rightarrow> state \<Rightarrow> state" where
  "exported a b t n 0 st = st"
| "exported a b t n (Suc K) st =
     export_frame a b t (n + K) (snd (on_zed Call_grab grab (exported a b t n K st)))"

definition image_name :: "string \<Rightarrow> nat \<Rightarrow> string" where
  "image_name d n = path_join d (format_06d n @ ''.png'')"

definition frame_events :: "string \<Rightarrow> string \<Rightarrow> string \<Rightarrow> nat \<Rightarrow> frame \<Rightarrow> event list" where
  "frame_events a b t n f =
     [Sdk Call_grab, Sdk (Call_retrieve_image LEFT), Sdk (Call_retrieve_image RIGHT),
      Sdk (Call_get_timestamp IMAGE),
      Fs (Imwrite (image_name a n) (first_3_channels (view_data f LEFT))),
      Fs (Imwrite (image_name b n) (first_3_channels (view_data f RIGHT))),
      Fs (Write t (times_line (timestamp_ns f IMAGE)))]"

primrec frame_files :: "string \<Rightarrow> string \<Rightarrow> svo \<Rightarrow> nat \<Rightarrow> (string \<rightharpoonup> file_content)" where
  "frame_files a b r 0 = Map.empty"
| "frame_files a b r (Suc K) =
     (frame_files a b r K)
       (image_name a K \<mapsto> Png (first_3_channels (view_data (frames r K) LEFT)),
        image_name b K \<mapsto> Png (first_3_channels (view_data (frames r K) RIGHT)))"

definition times_text :: "svo \<Rightarrow> nat \<Rightarrow> string" where
  "times_text r K = concat (map (\<lambda>i. times_line (timestamp_ns (frames r i) IMAGE)) [0..<K])"

definition calib_text :: "calibration_parameters \<Rightarrow> string" where
  "calib_text c =
     concat (map (\<lambda>line. line @ [CHR 0x0A])
       (calib_lines (left_cam c) (right_cam c) (fst (stereo_translation c))))"

definition the_init_params :: "string \<Rightarrow> init_parameters" where
  "the_init_params input_file =
     \<lparr>svo_file = input_file, coordinate_units = METER, svo_real_time_mode = False\<rparr>"

definition opening_events :: "string \<Rightarrow> string \<Rightarrow> event list" where
  "opening_events input_file out =
     [Fs (Makedirs (path_join out ''image_0'')), Fs (Makedirs (path_join out ''image_1'')),
      Fs (Open_w (path_join out ''times.txt'')), Print (Opening_Input_File input_file),
      Sdk (Call_open (the_init_params input_file))]"

definition calibration_events :: "event list" where
  "calibration_events = replicate 4 (Sdk Call_get_camera_information)"

definition loop_events :: "svo \<Rightarrow> string \<Rightarrow> nat \<Rightarrow> event list" where
  "loop_events r out K =
     concat (map (\<lambda>i. frame_events (path_join out ''image_0'') (path_join out ''image_1'')
                        (path_join out ''times.txt'') i (frames r i)) [0..<K])
     @ [Sdk Call_grab]"

definition closing_events :: "calibration_parameters \<Rightarrow> string \<Rightarrow> nat \<Rightarrow> event list" where
  "closing_events c out K =
     [Print (Exported K out), Fs (Close (path_join out ''times.txt'')), Sdk Call_close,
      Fs (Open_w (path_join out ''calib.txt''))]
     @ map (\<lambda>line. Fs (Write (path_join out ''calib.txt'') (line @ [CHR 0x0A])))
         (calib_lines (left_cam c) (right_cam c) (fst (stereo_translation c)))
     @ [Fs (Close (path_join out ''calib.txt'')),
        Print (Saved_calibration (path_join out ''calib.txt''))]"

definition output_dirs :: "string \<Rightarrow> string set" where
  "output_dirs out =
     set (parents (path_join out ''image_0'')) \<union> {path_join out ''image_0''}
     \<union> set (parents (path_join out ''image_1'')) \<union> {path_join out ''image_1''}"

definition success_state :: "svo \<Rightarrow> string \<Rightarrow> string \<Rightarrow> nat \<Rightarrow> state \<Rightarrow> state" where
  "success_state r input_file out K st =
     \<lparr>dirs = dirs st \<union> output_dirs out,
      files = (files st ++ frame_files (path_join out ''image_0'') (path_join out ''image_1'') r K)
                (path_join out ''times.txt'' \<mapsto> Text (times_text r K),
                 path_join out ''calib.txt'' \<mapsto> Text (calib_text (calibration r METER))),
      zed = \<lparr>cam_svo = None, cam_units = METER, cam_position = K + 1\<rparr>,
      trace = trace st @ opening_events input_file out @ calibration_events @ loop_events r out K
                @ closing_events (calibration r METER) out K\<rparr>"

definition failure_state :: "svo \<Rightarrow> string \<Rightarrow> string \<Rightarrow> state \<Rightarrow> state" where
  "failure_state r input_file out st =
     \<lparr>dirs = dirs st \<union> output_dirs out,
      files = (files st)(path_join out ''times.txt'' \<mapsto> Text []),
      zed = \<lparr>cam_svo = None, cam_units = METER, cam_position = 0\<rparr>,
      trace = trace st @ opening_events input_file out @ [Print (Failed_to_open (open_status r))]\<rparr>"

section \<open>Reading the written text back\<close>

definition is_digit :: "char \<Rightarrow> bool" where
  "is_digit c = (c \<in> set ''0123456789'')"

definition is_finite :: "pyfloat \<Rightarrow> bool" where
  "is_finite x = (case x of Finite s m e \<Rightarrow> True | _ \<Rightarrow> False)"

definition fixed_9 :: "string \<Rightarrow> bool" where
  "fixed_9 s =
     (let body = (if take 1 s = ''-'' then drop 1 s else s);
          ip = takeWhile (\<lambda>c. c \<noteq> CHR ''.'') body
      in ip \<noteq> [] \<and> list_all is_digit ip
         \<and> (case dropWhile (\<lambda>c. c \<noteq> CHR ''.'') body of
               [] \<Rightarrow> False
             | d # fp \<Rightarrow> length fp = 9 \<and> list_all is_digit fp))"

fun py_split :: "char \<Rightarrow> string \<Rightarrow> string list" where
  "py_split c [] = [[]]"
| "py_split c (x # xs) =
     (if x = c then [] # py_split c xs
      else (case py_split c xs of [] \<Rightarrow> [[x]] | w # ws \<Rightarrow> (x # w) # ws))"

definition file_lines :: "string \<Rightarrow> string list" where
  "file_lines s = (let ps = py_split (CHR 0x0A) s in if last ps = [] then butlast ps else ps)"

text \<open>The number that a decimal text stands for (leading zeros allowed).\<close>

definition digit_value :: "char \<Rightarrow> nat" where
  "digit_value c = length (takeWhile (\<lambda>x. x \<noteq> c) ''0123456789'')"

definition decimal_value :: "string \<Rightarrow> nat" where
  "decimal_value s = foldl (\<lambda>n c. 10 * n + digit_value c) 0 s"

definition spec_calib_line :: "string \<Rightarrow> string \<Rightarrow> bool" where
  "spec_calib_line label line =
     (case py_split (CHR '' '') line of
        [] \<Rightarrow> False
      | l # vs \<Rightarrow> l = label \<and> length vs = 12 \<and> list_all fixed_9 vs)"

definition spec_calib_format :: "string \<Rightarrow> bool" where
  "spec_calib_format content =
     (case file_lines content of
        [l0, l1] \<Rightarrow> spec_calib_line ''P0:'' l0 \<and> spec_calib_line ''P1:'' l1
      | _ \<Rightarrow> False)"

definition P0_values :: "calibration_parameters \<Rightarrow> string list" where
  "P0_values c =
     [format_9f (fx (left_cam c)), ''0.0'', format_9f (cx (left_cam c)), ''0.0'',
      ''0.0'', format_9f (fy (left_cam c)), format_9f (cy (left_cam c)), ''0.0'',
      ''0.0'', ''0.0'', ''1.0'', ''0.0'']"

definition P1_values :: "calibration_parameters \<Rightarrow> string list" where
  "P1_values c =
     [format_9f (fx (right_cam c)), ''0.0'', format_9f (cx (right_cam c)),
      format_9f (py_float_mul (py_float_neg (fx (left_cam c))) (fst (stereo_translation c))),
      ''0.0'', format_9f (fy (right_cam c)), format_9f (cy (right_cam c)), ''0.0'',
      ''0.0'', ''0.0'', ''1.0'', ''0.0'']"

section \<open>What a run leaves behind\<close>

definition file_exists :: "string \<Rightarrow> state \<Rightarrow> bool" where
  "file_exists p st = (files st p \<noteq> None)"

definition dir_exists :: "string \<Rightarrow> state \<Rightarrow> bool" where
  "dir_exists p st = (p \<in> dirs st)"

text \<open>
  The reading of the specification for a failed \<open>open\<close>: neither \<open>times.txt\<close> nor
  \<open>calib.txt\<close> nor the two image directories exist in the output directory.
\<close>

definition nothing_created :: "string \<Rightarrow> state \<Rightarrow> bool" where
  "nothing_created out st =
     (\<not> file_exists (path_join out ''times.txt'') st
      \<and> \<not> file_exists (path_join out ''calib.txt'') st
      \<and> \<not> dir_exists (path_join out ''image_0'') st
      \<and> \<not> dir_exists (path_join out ''image_1'') st)"

text \<open>The calls made on the handle, in order, and what was printed.\<close>

fun sdk_calls :: "event list \<Rightarrow> sdk_call list" where
  "sdk_calls [] = []"
| "sdk_calls (Sdk c # evs) = c # sdk_calls evs"
| "sdk_calls (ev # evs) = sdk_calls evs"

fun printed :: "event list \<Rightarrow> message list" where
  "printed [] = []"
| "printed (Print m # evs) = m # printed evs"
| "printed (ev # evs) = printed evs"

text \<open>The calls of one turn of the loop with a successful \<open>grab\<close>.\<close>

definition frame_calls :: "sdk_call list" where
  "frame_calls =
     [Call_grab, Call_retrieve_image LEFT, Call_retrieve_image RIGHT, Call_get_timestamp IMAGE]"

section \<open>Example inputs\<close>

definition empty_state :: state where
  "empty_state = \<lparr>dirs = {}, files = Map.empty, zed = new_camera, trace = []\<rparr>"

definition example_frame :: "nat \<Rightarrow> frame" where
  "example_frame i =
     \<lparr>view_data = case_VIEW [[[10 + i, 20, 30, 255]]] [[[40 + i, 50, 60, 255]]] [] [],
      timestamp_ns = case_TIME_REFERENCE (word_of_nat (1500000000 + 33333333 * i)) 7\<rparr>"

text \<open>
  A calibration block: \<open>fx = fy = 700.0\<close> (\<open>175 * 2^2\<close>), \<open>cx = 640.0\<close>,
  \<open>cy = 360.0\<close>, and the translation \<open>0.12\<close> (the binary64 value nearest to it).
\<close>

definition example_parameters :: camera_parameters where
  "example_parameters =
     \<lparr>fx = Finite False 175 2, fy = Finite False 175 2,
      cx = Finite False 5 7, cy = Finite False 45 3\<rparr>"

definition example_calibration :: calibration_parameters where
  "example_calibration =
     \<lparr>left_cam = example_parameters, right_cam = example_parameters,
      stereo_translation =
        (Finite False 1080863910568919 (- 53), Finite False 0 0, Finite False 0 0)\<rparr>"

definition example_grab_status :: "nat \<Rightarrow> ERROR_CODE" where
  "example_grab_status i = (if i < 2 then SUCCESS else END_OF_SVOFILE_REACHED)"

definition example_calibration_in :: "UNIT \<Rightarrow> calibration_parameters" where
  "example_calibration_in u = example_calibration"

text \<open>A recording of two frames, and a file that the reader cannot open.\<close>

definition example_svo :: svo where
  "example_svo =
     \<lparr>open_status = SUCCESS, calibration = example_calibration_in,
      grab_status = example_grab_status, frames = example_frame\<rparr>"

definition unreadable_svo :: svo where
  "unreadable_svo = example_svo\<lparr>open_status := INVALID_SVO_FILE\<rparr>"

definition example_disk :: "string \<Rightarrow> svo" where
  "example_disk p = example_svo"

definition unreadable_disk :: "string \<Rightarrow> svo" where
  "unreadable_disk p = unreadable_svo"

text \<open>A recording without frames, and one that breaks at its second frame.\<close>

definition no_frames_status :: "nat \<Rightarrow> ERROR_CODE" where
  "no_frames_status i = END_OF_SVOFILE_REACHED"

definition no_frames_svo :: svo where
  "no_frames_svo = example_svo\<lparr>grab_status := no_frames_status\<rparr>"

definition no_frames_disk :: "string \<Rightarrow> svo" where
  "no_frames_disk p = no_frames_svo"

definition corrupted_status :: "nat \<Rightarrow> ERROR_CODE" where
  "corrupted_status i = (if i = 1 then CORRUPTED_FRAME else SUCCESS)"

definition corrupted_svo :: svo where
  "corrupted_svo = example_svo\<lparr>grab_status := corrupted_status\<rparr>"

definition corrupted_disk :: "string \<Rightarrow> svo" where
  "corrupted_disk p = corrupted_svo"

section \<open>Properties of the model\<close>

lemma emit_sel [simp]:
  "dirs (emit ev st) = dirs st" "files (emit ev st) = files st" "zed (emit ev st) = zed st"
  "trace (emit ev st) = trace st @ [ev]"
  by (simp_all add: emit_def)

lemma makedirs_sel [simp]:
  "dirs (makedirs p st) = dirs st \<union> set (parents p) \<union> {p}" "files (makedirs p st) = files st"
  "zed (makedirs p st) = zed st" "trace (makedirs p st) = trace st @ [Fs (Makedirs p)]"
  by (simp_all add: makedirs_def)

lemma py_open_w_sel [simp]:
  "dirs (py_open_w p st) = dirs st" "files (py_open_w p st) = (files st)(p \<mapsto> Text [])"
  "zed (py_open_w p st) = zed st" "trace (py_open_w p st) = trace st @ [Fs (Open_w p)]"
  by (simp_all add: py_open_w_def)

lemma file_write_sel [simp]:
  "dirs (file_write p s st) = dirs st"
  "files (file_write p s st) = (files st)(p \<mapsto> Text (text_of (files st p) @ s))"
  "zed (file_write p s st) = zed st" "trace (file_write p s st) = trace st @ [Fs (Write p s)]"
  by (simp_all add: file_write_def)

lemma file_close_sel [simp]:
  "dirs (file_close p st) = dirs st" "files (file_close p st) = files st"
  "zed (file_close p st) = zed st" "trace (file_close p st) = trace st @ [Fs (Close p)]"
  by (simp_all add: file_close_def)

lemma imwrite_sel [simp]:
  "dirs (imwrite p i st) = dirs st" "files (imwrite p i st) = (files st)(p \<mapsto> Png i)"
  "zed (imwrite p i st) = zed st" "trace (imwrite p i st) = trace st @ [Fs (Imwrite p i)]"
  by (simp_all add: imwrite_def)

lemma py_print_sel [simp]:
  "dirs (py_print m st) = dirs st" "files (py_print m st) = files st"
  "zed (py_print m st) = zed st" "trace (py_print m st) = trace st @ [Print m]"
  by (simp_all add: py_print_def)

lemma on_zed_sel [simp]:
  "fst (on_zed c f st) = fst (f (zed st))"
  "dirs (snd (on_zed c f st)) = dirs st" "files (snd (on_zed c f st)) = files st"
  "zed (snd (on_zed c f st)) = snd (f (zed st))"
  "trace (snd (on_zed c f st)) = trace st @ [Sdk c]"
  by (simp_all add: on_zed_def split: prod.splits)

lemma text_of_simps [simp]:
  "text_of (Some (Text t)) = t" "text_of None = []" "text_of (Some (Png i)) = []"
  by (simp_all add: text_of_def)

lemma state_eqI:
  "dirs a = dirs b \<Longrightarrow> files a = files b \<Longrightarrow> zed a = zed b \<Longrightarrow> trace a = trace b \<Longrightarrow> (a::state) = b"
  by simp

lemma grab_open:
  "cam_svo (zed st) = Some r \<Longrightarrow>
   on_zed Call_grab grab st =
     (grab_status r (cam_position (zed st)),
      emit (Sdk Call_grab) (st\<lparr>zed := (zed st)\<lparr>cam_position := cam_position (zed st) + 1\<rparr>\<rparr>))"
  by (simp add: on_zed_def grab_def)

lemma export_frame_sel:
  "dirs (export_frame a b t n st) = dirs st"
  "zed (export_frame a b t n st) = zed st"
  by (simp_all add: export_frame_def Let_def retrieve_image_def get_timestamp_def on_zed_def
      split: prod.splits)

lemma export_frame_after_grab:
  fixes a b t n st r
  defines "st1 \<equiv> export_frame a b t n (snd (on_zed Call_grab grab st))"
  defines "f \<equiv> frames r (cam_position (zed st))"
  assumes "cam_svo (zed st) = Some r"
  shows "trace st1 = trace st @ frame_events a b t n f"
    and "files st1 =
           (let fs = (files st)(image_name a n \<mapsto> Png (first_3_channels (view_data f LEFT)),
                                image_name b n \<mapsto> Png (first_3_channels (view_data f RIGHT)))
            in fs(t \<mapsto> Text (text_of (fs t) @ times_line (timestamp_ns f IMAGE))))"
    and "zed st1 = (zed st)\<lparr>cam_position := cam_position (zed st) + 1\<rparr>"
    and "dirs st1 = dirs st"
  using assms(3) unfolding st1_def f_def grab_open[OF assms(3)]
  by (simp_all add: export_frame_def Let_def retrieve_image_def get_timestamp_def
      on_zed_def current_frame_def frame_events_def image_name_def)

lemma exported_zed:
  "cam_svo (zed st) = Some r \<Longrightarrow>
   zed (exported a b t n K st) = (zed st)\<lparr>cam_position := cam_position (zed st) + K\<rparr>"
  by (induction K) (simp_all add: export_frame_after_grab(3))

lemma exported_dirs: "dirs (exported a b t n K st) = dirs st"
  by (induction K) (simp_all add: export_frame_sel)

lemma export_loop_unroll:
  assumes "cam_svo (zed st) = Some r"
    and "\<forall>i<K. grab_status r (cam_position (zed st) + i) = SUCCESS"
  shows "export_loop a b t n st = export_loop a b t (n + K) (exported a b t n K st)"
  using assms(2)
proof (induction K)
  case 0
  show ?case by simp
next
  case (Suc K)
  let ?X = "exported a b t n K st"
  have z: "cam_svo (zed ?X) = Some r" "cam_position (zed ?X) = cam_position (zed st) + K"
    by (simp_all add: exported_zed[OF assms(1)] assms(1))
  have "export_loop a b t n st = export_loop a b t (n + K) ?X"
    using Suc by simp
  also have "\<dots> = export_loop a b t (n + K + 1) (export_frame a b t (n + K) (snd (on_zed Call_grab grab ?X)))"
    using Suc.prems z by (subst export_loop.simps) (simp add: grab_open[OF z(1)])
  finally show ?case by simp
qed

lemma export_loop_result:
  assumes "cam_svo (zed st) = Some r"
    and "\<forall>i<K. grab_status r (cam_position (zed st) + i) = SUCCESS"
    and "grab_status r (cam_position (zed st) + K) \<noteq> SUCCESS"
  shows "export_loop a b t n st =
           Some (n + K, snd (on_zed Call_grab grab (exported a b t n K st)))"
proof -
  let ?X = "exported a b t n K st"
  have z: "cam_svo (zed ?X) = Some r" "cam_position (zed ?X) = cam_position (zed st) + K"
    by (simp_all add: exported_zed[OF assms(1)] assms(1))
  have "export_loop a b t n st = export_loop a b t (n + K) ?X"
    by (rule export_loop_unroll[OF assms(1,2)])
  also have "\<dots> = Some (n + K, snd (on_zed Call_grab grab ?X))"
    using assms(3) z by (subst export_loop.simps) (simp add: grab_open[OF z(1)])
  finally show ?thesis .
qed

lemma last_path_join: "b \<noteq> [] \<Longrightarrow> last (path_join a b) = last b"
  by (simp add: path_join_def)

lemma times_not_image: "path_join d ''times.txt'' \<noteq> image_name d' n"
proof
  assume "path_join d ''times.txt'' = image_name d' n"
  then have "last (path_join d ''times.txt'') = last (path_join d' (format_06d n @ ''.png''))"
    by (simp add: image_name_def)
  then show False by (simp add: last_path_join)
qed

lemma calib_not_times: "path_join d ''calib.txt'' \<noteq> path_join d ''times.txt''"
  by (simp add: path_join_def)

lemma exported_trace:
  assumes "cam_svo (zed st) = Some r" "cam_position (zed st) = 0"
  shows "trace (exported a b t 0 K st) =
           trace st @ concat (map (\<lambda>i. frame_events a b t i (frames r i)) [0..<K])"
proof (induction K)
  case 0
  show ?case by simp
next
  case (Suc K)
  let ?X = "exported a b t 0 K st"
  have z: "cam_svo (zed ?X) = Some r" "cam_position (zed ?X) = K"
    by (simp_all add: exported_zed[OF assms(1)] assms)
  show ?case
    using Suc by (simp add: export_frame_after_grab(1)[OF z(1)] z(2))
qed

lemma exported_files:
  assumes "cam_svo (zed st) = Some r" "cam_position (zed st) = 0"
    and "files st t = Some (Text [])"
    and "\<forall>i. t \<noteq> image_name a i \<and> t \<noteq> image_name b i"
  shows "files (exported a b t 0 K st) =
           (files st ++ frame_files a b r K)(t \<mapsto> Text (times_text r K))"
proof (induction K)
  case 0
  show ?case using assms(3) by (auto simp: times_text_def)
next
  case (Suc K)
  let ?X = "exported a b t 0 K st"
  have z: "cam_svo (zed ?X) = Some r" "cam_position (zed ?X) = K"
    by (simp_all add: exported_zed[OF assms(1)] assms)
  have ne: "image_name a K \<noteq> t" "image_name b K \<noteq> t"
    using assms(4) by metis+
  show ?case
    using Suc ne
    by (auto simp add: export_frame_after_grab(2)[OF z(1)] z(2) Let_def times_text_def
        fun_eq_iff map_add_def)
qed

lemma open_recording_result:
  "open_recording disk input_file st =
     (open_status (disk input_file),
      \<lparr>dirs = dirs st, files = files st,
       zed = \<lparr>cam_svo = (if open_status (disk input_file) = SUCCESS then Some (disk input_file) else None),
              cam_units = METER, cam_position = 0\<rparr>,
       trace = trace st @ [Print (Opening_Input_File input_file),
                           Sdk (Call_open (the_init_params input_file))]\<rparr>)"
  by (simp add: open_recording_def Let_def on_zed_def camera_open_def new_camera_def
      the_init_params_def py_print_def emit_def)

lemma read_calibration_result:
  assumes "cam_svo (zed st) = Some r" "cam_units (zed st) = u"
  shows "read_calibration st =
     ((left_cam (calibration r u), right_cam (calibration r u),
       fst (stereo_translation (calibration r u))),
      st\<lparr>trace := trace st @ calibration_events\<rparr>)"
  using assms
  by (simp add: read_calibration_def on_zed_def get_camera_information_def emit_def
      calibration_events_def numeral_eq_Suc)

lemma write_calibration_result:
  "write_calibration out [P0, P1] st =
     st\<lparr>files := (files st)(path_join out ''calib.txt'' \<mapsto> Text (P0 @ [CHR 0x0A] @ P1 @ [CHR 0x0A])),
        trace := trace st @ [Fs (Open_w (path_join out ''calib.txt'')),
          Fs (Write (path_join out ''calib.txt'') (P0 @ [CHR 0x0A])),
          Fs (Write (path_join out ''calib.txt'') (P1 @ [CHR 0x0A])),
          Fs (Close (path_join out ''calib.txt'')),
          Print (Saved_calibration (path_join out ''calib.txt''))]\<rparr>"
  by (simp add: write_calibration_def Let_def py_open_w_def file_write_def file_close_def
      py_print_def emit_def)

lemma calib_lines_two:
  "\<exists>P0 P1. calib_lines l r b = [P0, P1]"
  by (simp add: calib_lines_def Let_def)

lemma run_failure:
  assumes "open_status (disk input_file) \<noteq> SUCCESS"
  shows "zed2_to_kitti disk input_file od st =
           Some (SystemExit 1,
                 failure_state (disk input_file) input_file (resolve_output_dir input_file od) st)"
  using assms
  by (simp add: zed2_to_kitti_def Let_def open_recording_result failure_state_def
      opening_events_def output_dirs_def py_print_def emit_def makedirs_def py_open_w_def
      Un_assoc)

lemma run_success:
  assumes ok: "open_status (disk input_file) = SUCCESS"
    and succ: "\<forall>i<K. grab_status (disk input_file) i = SUCCESS"
    and stop: "grab_status (disk input_file) K \<noteq> SUCCESS"
  shows "zed2_to_kitti disk input_file od st =
           Some (Returned,
                 success_state (disk input_file) input_file (resolve_output_dir input_file od) K st)"
proof -
  define r where "r = disk input_file"
  define out where "out = resolve_output_dir input_file od"
  define a where "a = path_join out ''image_0''"
  define b where "b = path_join out ''image_1''"
  define t where "t = path_join out ''times.txt''"
  define c where "c = calibration r METER"
  define st2 where "st2 = py_open_w t (makedirs b (makedirs a st))"
  define st3 where "st3 = snd (open_recording disk input_file st2)"
  define st4 where "st4 = st3\<lparr>trace := trace st3 @ calibration_events\<rparr>"
  have o: "open_recording disk input_file st2 = (SUCCESS, st3)"
    by (simp add: st3_def open_recording_result ok)
  have z3: "cam_svo (zed st3) = Some r" "cam_units (zed st3) = METER" "cam_position (zed st3) = 0"
    by (simp_all add: st3_def open_recording_result ok r_def)
  have rc: "read_calibration st3 =
      ((left_cam c, right_cam c, fst (stereo_translation c)), st4)"
    by (simp add: read_calibration_result[OF z3(1,2)] c_def st4_def)
  have z4: "cam_svo (zed st4) = Some r" "cam_position (zed st4) = 0"
    by (simp_all add: st4_def z3)
  have f4: "files st4 t = Some (Text [])"
    by (simp add: st4_def st3_def open_recording_result st2_def)
  have d: "\<forall>i. t \<noteq> image_name a i \<and> t \<noteq> image_name b i"
    by (simp add: t_def times_not_image)
  define st5 where "st5 = snd (on_zed Call_grab grab (exported a b t 0 K st4))"
  have loop: "export_loop a b t 0 st4 = Some (K, st5)"
    using export_loop_result[of st4 r K a b t 0] z4 succ stop
    by (simp add: st5_def r_def)
  obtain P0 P1 where cl: "calib_lines (left_cam c) (right_cam c) (fst (stereo_translation c)) = [P0, P1]"
    using calib_lines_two by blast
  have run: "zed2_to_kitti disk input_file od st =
      Some (Returned, write_calibration out [P0, P1]
        (snd (on_zed Call_close camera_close (file_close t (py_print (Exported K out) st5)))))"
    using o rc loop cl
    by (simp add: zed2_to_kitti_def Let_def out_def[symmetric] a_def[symmetric] b_def[symmetric]
        t_def[symmetric] st2_def[symmetric])
  have zX: "zed (exported a b t 0 K st4) = (zed st4)\<lparr>cam_position := K\<rparr>"
    by (simp add: exported_zed[OF z4(1)] z4(2))
  have fX: "files (exported a b t 0 K st4) =
      (files st4 ++ frame_files a b r K)(t \<mapsto> Text (times_text r K))"
    by (rule exported_files[OF z4 f4 d])
  have tX: "trace (exported a b t 0 K st4) =
      trace st4 @ concat (map (\<lambda>i. frame_events a b t i (frames r i)) [0..<K])"
    by (rule exported_trace[OF z4])
  have s4: "files st4 = (files st)(t \<mapsto> Text [])"
    "dirs st4 = dirs st \<union> output_dirs out"
    "trace st4 = trace st @ opening_events input_file out @ calibration_events"
    "zed st4 = \<lparr>cam_svo = Some r, cam_units = METER, cam_position = 0\<rparr>"
    by (simp_all add: st4_def st3_def open_recording_result st2_def output_dirs_def
        opening_events_def a_def b_def t_def Un_assoc ok r_def)
  have ss: "files (success_state r input_file out K st) =
      (files st ++ frame_files a b r K)(t \<mapsto> Text (times_text r K),
        path_join out ''calib.txt'' \<mapsto> Text (P0 @ [CHR 0x0A] @ P1 @ [CHR 0x0A]))"
    "trace (success_state r input_file out K st) =
      trace st @ opening_events input_file out @ calibration_events
      @ (concat (map (\<lambda>i. frame_events a b t i (frames r i)) [0..<K]) @ [Sdk Call_grab])
      @ [Print (Exported K out), Fs (Close t), Sdk Call_close,
         Fs (Open_w (path_join out ''calib.txt'')),
         Fs (Write (path_join out ''calib.txt'') (P0 @ [CHR 0x0A])),
         Fs (Write (path_join out ''calib.txt'') (P1 @ [CHR 0x0A])),
         Fs (Close (path_join out ''calib.txt'')),
         Print (Saved_calibration (path_join out ''calib.txt''))]"
    using cl
    by (simp_all add: success_state_def calib_text_def c_def a_def b_def t_def
        loop_events_def closing_events_def)
  have "write_calibration out [P0, P1]
        (snd (on_zed Call_close camera_close (file_close t (py_print (Exported K out) st5))))
      = success_state r input_file out K st"
  proof (rule state_eqI)
    show "dirs (write_calibration out [P0, P1]
        (snd (on_zed Call_close camera_close (file_close t (py_print (Exported K out) st5)))))
      = dirs (success_state r input_file out K st)"
      by (simp add: write_calibration_result st5_def exported_dirs s4 success_state_def)
    show "files (write_calibration out [P0, P1]
        (snd (on_zed Call_close camera_close (file_close t (py_print (Exported K out) st5)))))
      = files (success_state r input_file out K st)"
      by (auto simp add: write_calibration_result st5_def fX s4 ss fun_eq_iff map_add_def
          split: option.splits)
    show "zed (write_calibration out [P0, P1]
        (snd (on_zed Call_close camera_close (file_close t (py_print (Exported K out) st5)))))
      = zed (success_state r input_file out K st)"
      by (simp add: write_calibration_result st5_def grab_def zX s4 camera_close_def
          success_state_def)
    show "trace (write_calibration out [P0, P1]
        (snd (on_zed Call_close camera_close (file_close t (py_print (Exported K out) st5)))))
      = trace (success_state r input_file out K st)"
      by (simp add: write_calibration_result st5_def tX s4 ss)
  qed
  with run show ?thesis by (simp add: r_def out_def)
qed

subsection \<open>Evaluation of the recursive functions on numerals\<close>

lemma replicate_numeral: "replicate (numeral k) x = x # replicate (pred_numeral k) x"
  by (simp add: numeral_eq_Suc)

lemma py_str_nat_eval:
  "n < 10 \<Longrightarrow> py_str_nat n = [digit_char n]"
  "\<not> n < 10 \<Longrightarrow> py_str_nat n = py_str_nat (n div 10) @ [digit_char (n mod 10)]"
  by (subst py_str_nat.simps, simp)+

lemma bit_length_eval:
  "bit_length 0 = 0"
  "0 < n \<Longrightarrow> bit_length n = Suc (bit_length (n div 2))"
  by (subst bit_length.simps, simp)+

lemma strip_zeros_eval:
  "strip_zeros 0 e = (0, 0)"
  "0 < m \<Longrightarrow> even m \<Longrightarrow> strip_zeros m e = strip_zeros (m div 2) (e + 1)"
  "odd m \<Longrightarrow> strip_zeros m e = (m, e)"
  by (subst strip_zeros.simps, auto)+

lemmas float_eval = py_float_literal_def round_binary64_def round_half_even_def
  bit_length_eval strip_zeros_eval py_str_nat_eval zero_fill_def digit_char_def Let_def
  py_float_of_nat_def float_1e_9_def replicate_numeral format_9f.simps(3) py_float_mul.simps

subsection \<open>The text of numbers\<close>

lemma digit_char_is_digit: "d < 10 \<Longrightarrow> is_digit (digit_char d)"
  unfolding is_digit_def digit_char_def by (rule nth_mem) simp

lemma py_str_nat_digits: "list_all is_digit (py_str_nat n)"
proof (induction n rule: py_str_nat.induct)
  case (1 n)
  show ?case
  proof (cases "n < 10")
    case True
    then show ?thesis by (subst py_str_nat.simps) (simp add: digit_char_is_digit)
  next
    case False
    with 1 show ?thesis by (subst py_str_nat.simps) (simp add: digit_char_is_digit)
  qed
qed

lemma py_str_nat_nonempty: "py_str_nat n \<noteq> []"
  by (subst py_str_nat.simps) simp

lemma py_str_nat_length: "n < 10 ^ k \<Longrightarrow> 0 < k \<Longrightarrow> length (py_str_nat n) \<le> k"
proof (induction n arbitrary: k rule: py_str_nat.induct)
  case (1 n)
  show ?case
  proof (cases "n < 10")
    case True
    then show ?thesis using "1.prems" by (subst py_str_nat.simps) simp
  next
    case False
    then obtain j where k: "k = Suc j" using "1.prems" by (cases k) auto
    have "0 < j" using False "1.prems" k by (cases j) auto
    moreover have "n div 10 < 10 ^ j" using "1.prems" k
      by (simp add: less_mult_imp_div_less mult.commute)
    ultimately have "length (py_str_nat (n div 10)) \<le> j"
      using 1 False by simp
    then show ?thesis using False k by (subst py_str_nat.simps) simp
  qed
qed

lemma is_digit_chars: "is_digit c \<Longrightarrow> c \<noteq> CHR ''.'' \<and> c \<noteq> CHR '' '' \<and> c \<noteq> CHR 0x0A \<and> c \<noteq> CHR ''-''"
  by (auto simp add: is_digit_def)

lemma is_digit_0: "is_digit (CHR ''0'')"
  by (simp add: is_digit_def)

lemma zero_fill_digits: "list_all is_digit s \<Longrightarrow> list_all is_digit (zero_fill w s)"
  by (simp add: zero_fill_def list_all_iff set_replicate_conv_if is_digit_0)

lemma zero_fill_length: "length s \<le> w \<Longrightarrow> length (zero_fill w s) = w"
  by (simp add: zero_fill_def)

lemma fixed_9_I:
  assumes "ip \<noteq> []" "list_all is_digit ip" "list_all is_digit fp" "length fp = 9"
  shows "fixed_9 ((if s then ''-'' else []) @ ip @ ''.'' @ fp)"
proof -
  let ?t = "(if s then ''-'' else []) @ ip @ ''.'' @ fp"
  have nd: "\<And>c. c \<in> set ip \<Longrightarrow> c \<noteq> CHR ''.''"
    using assms(2) is_digit_chars by (auto simp add: list_all_iff)
  obtain c cs where ip: "ip = c # cs" "c \<noteq> CHR ''-''"
    using assms(1,2) is_digit_chars by (cases ip) auto
  have body: "(if take 1 ?t = ''-'' then drop 1 ?t else ?t) = ip @ CHR ''.'' # fp"
  proof (cases s)
    case True
    then show ?thesis by simp
  next
    case False
    then show ?thesis using ip by simp
  qed
  have tw: "takeWhile (\<lambda>c. c \<noteq> CHR ''.'') (ip @ CHR ''.'' # fp) = ip"
    using nd by (simp add: takeWhile_append2)
  have dw: "dropWhile (\<lambda>c. c \<noteq> CHR ''.'') (ip @ CHR ''.'' # fp) = CHR ''.'' # fp"
    using nd by (simp add: dropWhile_append2)
  show ?thesis
    unfolding fixed_9_def body Let_def tw dw using assms by simp
qed

lemma format_9f_fixed: "is_finite x \<Longrightarrow> fixed_9 (format_9f x)"
proof (cases x)
  case (Finite s m e)
  define N where "N = round_half_even (m * 10 ^ 9 * 2 ^ nat e) (nat (- e))"
  have l: "length (py_str_nat (N mod 1000000000)) \<le> 9"
    using py_str_nat_length[of "N mod 10 ^ 9" 9] by simp
  have "format_9f x = (if s then ''-'' else []) @ py_str_nat (N div 10 ^ 9) @ ''.''
      @ zero_fill 9 (py_str_nat (N mod 10 ^ 9))"
    by (simp add: Finite N_def Let_def format_9f.simps(3))
  moreover have "fixed_9 ((if s then ''-'' else []) @ py_str_nat (N div 10 ^ 9) @ ''.''
      @ zero_fill 9 (py_str_nat (N mod 10 ^ 9)))"
    by (rule fixed_9_I)
      (simp_all add: py_str_nat_nonempty py_str_nat_digits zero_fill_digits zero_fill_length l)
  ultimately show ?thesis by simp
qed (simp_all add: is_finite_def)

lemma format_9f_chars: "c \<in> set (format_9f x) \<Longrightarrow> c \<noteq> CHR '' '' \<and> c \<noteq> CHR 0x0A"
proof (cases x)
  case (Finite s m e)
  define N where "N = round_half_even (m * 10 ^ 9 * 2 ^ nat e) (nat (- e))"
  define ip where "ip = py_str_nat (N div 10 ^ 9)"
  define fp where "fp = zero_fill 9 (py_str_nat (N mod 10 ^ 9))"
  have d: "list_all is_digit ip" "list_all is_digit fp"
    by (simp_all add: ip_def fp_def py_str_nat_digits zero_fill_digits)
  have f: "format_9f x = (if s then ''-'' else []) @ ip @ ''.'' @ fp"
    by (simp add: Finite N_def ip_def fp_def Let_def format_9f.simps(3))
  assume "c \<in> set (format_9f x)"
  then have "c = CHR ''-'' \<or> c = CHR ''.'' \<or> c \<in> set ip \<or> c \<in> set fp"
    unfolding f by (auto split: if_splits)
  then have "c = CHR ''-'' \<or> c = CHR ''.'' \<or> is_digit c"
    using d by (auto simp add: list_all_iff)
  then show ?thesis using is_digit_chars[of c] by auto
next
  case (Infinite s)
  assume "c \<in> set (format_9f x)"
  then show ?thesis unfolding Infinite by (cases s) auto
next
  case NaN
  assume "c \<in> set (format_9f x)"
  then show ?thesis unfolding NaN by auto
qed

lemma py_split_append:
  "c \<notin> set a \<Longrightarrow> py_split c (a @ c # rest) = a # py_split c rest"
  by (induction a) auto

lemma py_split_none: "c \<notin> set a \<Longrightarrow> py_split c a = [a]"
  by (induction a) auto

lemma space_notin_format_9f [simp]: "CHR '' '' \<notin> set (format_9f x)"
  using format_9f_chars[of "CHR '' ''" x] by auto

lemma newline_notin_format_9f [simp]: "CHR 0x0A \<notin> set (format_9f x)"
  using format_9f_chars[of "CHR 0x0A" x] by auto

lemma py_split_append_simp [simp]:
  "c \<notin> set a \<Longrightarrow> py_split c (a @ c # rest) = a # py_split c rest"
  by (rule py_split_append)

lemma calib_lines_tokens:
  "\<exists>l0 l1. calib_lines (left_cam c) (right_cam c) (fst (stereo_translation c)) = [l0, l1]
     \<and> py_split (CHR '' '') l0 = ''P0:'' # P0_values c
     \<and> py_split (CHR '' '') l1 = ''P1:'' # P1_values c
     \<and> CHR 0x0A \<notin> set l0 \<and> CHR 0x0A \<notin> set l1"
  by (simp add: calib_lines_def Let_def P0_values_def P1_values_def py_split_none)

lemma file_lines_two:
  "CHR 0x0A \<notin> set l0 \<Longrightarrow> CHR 0x0A \<notin> set l1 \<Longrightarrow>
   file_lines (l0 @ [CHR 0x0A] @ l1 @ [CHR 0x0A]) = [l0, l1]"
  by (simp add: file_lines_def)

lemmas example_defs = example_disk_def example_svo_def example_grab_status_def
  example_calibration_in_def example_calibration_def example_parameters_def
  example_frame_def unreadable_disk_def unreadable_svo_def empty_state_def

lemma example_output_dir: "resolve_output_dir ''/data/run1.svo'' None = ''/data/run1_kitti_dataset''"
  by code_simp

lemma example_run:
  "zed2_to_kitti example_disk ''/data/run1.svo'' None empty_state =
     Some (Returned,
           success_state example_svo ''/data/run1.svo'' ''/data/run1_kitti_dataset'' 2 empty_state)"
  using run_success[of example_disk "''/data/run1.svo''" 2 None empty_state]
  by (simp add: example_output_dir example_disk_def example_svo_def example_grab_status_def)

lemma example_calibration_value:
  "calibration example_svo u =
     \<lparr>left_cam = \<lparr>fx = Finite False 175 2, fy = Finite False 175 2,
                   cx = Finite False 5 7, cy = Finite False 45 3\<rparr>,
      right_cam = \<lparr>fx = Finite False 175 2, fy = Finite False 175 2,
                    cx = Finite False 5 7, cy = Finite False 45 3\<rparr>,
      stereo_translation =
        (Finite False 1080863910568919 (- 53), Finite False 0 0, Finite False 0 0)\<rparr>"
  by (simp add: example_svo_def example_calibration_in_def example_calibration_def
      example_parameters_def)

lemma example_tx:
  "py_float_mul (Finite True 175 2) (Finite False 1080863910568919 (- 53)) = Finite True 21 2"
  by (simp add: float_eval)

lemma example_formats:
  "format_9f (Finite False 175 2) = ''700.000000000''"
  "format_9f (Finite False 5 7) = ''640.000000000''"
  "format_9f (Finite False 45 3) = ''360.000000000''"
  "format_9f (Finite True 21 2) = ''-84.000000000''"
  by (simp_all add: float_eval)

lemma example_calib_text:
  "calib_text (calibration example_svo METER) =
   ''P0: 700.000000000 0.0 640.000000000 0.0 0.0 700.000000000 360.000000000 0.0 0.0 0.0 1.0 0.0'' @ [CHR 0x0A]
   @ ''P1: 700.000000000 0.0 640.000000000 -84.000000000 0.0 700.000000000 360.000000000 0.0 0.0 0.0 1.0 0.0'' @ [CHR 0x0A]"
  by (simp add: calib_text_def calib_lines_def Let_def example_calibration_value example_tx
      example_formats)

lemma success_calib_file:
  "files (success_state r input_file out K st) (path_join out ''calib.txt'')
     = Some (Text (calib_text (calibration r METER)))"
  by (simp add: success_state_def)

lemma calib_text_lines:
  "\<exists>l0 l1. file_lines (calib_text c) = [l0, l1]
     \<and> py_split (CHR '' '') l0 = ''P0:'' # P0_values c
     \<and> py_split (CHR '' '') l1 = ''P1:'' # P1_values c"
proof -
  obtain l0 l1 where l: "calib_lines (left_cam c) (right_cam c) (fst (stereo_translation c)) = [l0, l1]"
    "py_split (CHR '' '') l0 = ''P0:'' # P0_values c"
    "py_split (CHR '' '') l1 = ''P1:'' # P1_values c"
    "CHR 0x0A \<notin> set l0" "CHR 0x0A \<notin> set l1"
    using calib_lines_tokens[of c] by blast
  have "file_lines (calib_text c) = [l0, l1]"
    using file_lines_two[OF l(4,5)] by (simp add: calib_text_def l(1))
  with l show ?thesis by blast
qed

lemma literal_700: "py_float_literal False 700 1 = Finite False 175 2"
  by (simp add: float_eval)

lemma literal_012: "py_float_literal False 12 100 = Finite False 1080863910568919 (- 53)"
  by (simp add: float_eval)

lemma literal_minus_84: "py_float_literal True 84 1 = Finite True 21 2"
  by (simp add: float_eval)

lemma sdk_calls_append [simp]: "sdk_calls (xs @ ys) = sdk_calls xs @ sdk_calls ys"
  by (induction xs rule: sdk_calls.induct) simp_all

lemma printed_append [simp]: "printed (xs @ ys) = printed xs @ printed ys"
  by (induction xs rule: printed.induct) simp_all

lemma sdk_calls_frame_events [simp]: "sdk_calls (frame_events a b t n f) = frame_calls"
  by (simp add: frame_events_def frame_calls_def)

lemma printed_frame_events [simp]: "printed (frame_events a b t n f) = []"
  by (simp add: frame_events_def)

lemma sdk_calls_loop: "sdk_calls (loop_events r out K) = concat (replicate K frame_calls) @ [Call_grab]"
proof -
  have "sdk_calls (concat (map (\<lambda>i. frame_events a b t (g i) (frames r i)) xs))
      = concat (replicate (length xs) frame_calls)" for a b t g xs
    by (induction xs) simp_all
  from this[of _ _ _ "\<lambda>i. i" "[0..<K]"] show ?thesis
    by (simp add: loop_events_def)
qed

lemma printed_loop: "printed (loop_events r out K) = []"
proof -
  have "printed (concat (map (\<lambda>i. frame_events a b t (g i) (frames r i)) xs)) = []" for a b t g xs
    by (induction xs) simp_all
  from this[of _ _ _ "\<lambda>i. i" "[0..<K]"] show ?thesis
    by (simp add: loop_events_def)
qed

lemma success_trace:
  "trace (success_state r input_file out K st) =
     trace st @ opening_events input_file out @ calibration_events @ loop_events r out K
       @ closing_events (calibration r METER) out K"
  by (simp add: success_state_def)

lemma sdk_calls_success:
  "sdk_calls (drop (length (trace st)) (trace (success_state r input_file out K st))) =
     [Call_open (the_init_params input_file)] @ replicate 4 Call_get_camera_information
     @ concat (replicate K frame_calls) @ [Call_grab] @ [Call_close]"
proof -
  obtain l0 l1 where "calib_lines (left_cam (calibration r METER)) (right_cam (calibration r METER))
      (fst (stereo_translation (calibration r METER))) = [l0, l1]"
    using calib_lines_two by blast
  then show ?thesis
    by (simp add: success_trace sdk_calls_loop opening_events_def calibration_events_def
        closing_events_def numeral_eq_Suc)
qed

lemma printed_success:
  "printed (drop (length (trace st)) (trace (success_state r input_file out K st))) =
     [Opening_Input_File input_file, Exported K out,
      Saved_calibration (path_join out ''calib.txt'')]"
proof -
  obtain l0 l1 where "calib_lines (left_cam (calibration r METER)) (right_cam (calibration r METER))
      (fst (stereo_translation (calibration r METER))) = [l0, l1]"
    using calib_lines_two by blast
  then show ?thesis
    by (simp add: success_trace printed_loop opening_events_def calibration_events_def
        closing_events_def numeral_eq_Suc)
qed

lemma frame_calls_set:
  "Call_get_camera_information \<notin> set (concat (replicate K frame_calls) @ [Call_grab])"
  "Call_close \<notin> set (concat (replicate K frame_calls) @ [Call_grab])"
  "hd (concat (replicate K frame_calls) @ [Call_grab]) = Call_grab"
  by (induction K) (simp_all add: frame_calls_def)

lemma success_zed:
  "zed (success_state r input_file out K st) =
     \<lparr>cam_svo = None, cam_units = METER, cam_position = K + 1\<rparr>"
  by (simp add: success_state_def)

lemma example_K:
  "open_status (example_disk p) = SUCCESS"
  "\<forall>i<2. grab_status (example_disk p) i = SUCCESS"
  "grab_status (example_disk p) 2 \<noteq> SUCCESS"
  by (simp_all add: example_disk_def example_svo_def example_grab_status_def)

lemma example_paths:
  "path_join ''/data/run1_kitti_dataset'' ''calib.txt'' = ''/data/run1_kitti_dataset/calib.txt''"
  "path_join ''/data/run1_kitti_dataset'' ''times.txt'' = ''/data/run1_kitti_dataset/times.txt''"
  "path_join ''/data/run1_kitti_dataset'' ''image_0'' = ''/data/run1_kitti_dataset/image_0''"
  "path_join ''/data/run1_kitti_dataset'' ''image_1'' = ''/data/run1_kitti_dataset/image_1''"
  by (simp_all add: path_join_def)

subsection \<open>The extension of a path\<close>

lemma rfind_last: "c \<notin> set ys \<Longrightarrow> rfind c (xs @ c # ys) = int (length xs)"
proof -
  assume n: "c \<notin> set ys"
  have a: "\<And>x. x \<in> set (rev ys) \<Longrightarrow> x \<noteq> c"
    using n by auto
  have "takeWhile (\<lambda>x. x \<noteq> c) (rev ys @ c # rev xs)
      = rev ys @ takeWhile (\<lambda>x. x \<noteq> c) (c # rev xs)"
    by (rule takeWhile_append2) (rule a)
  then have "length (takeWhile (\<lambda>x. x \<noteq> c) (rev (xs @ c # ys))) = length ys"
    by simp
  then show ?thesis
    by (simp add: rfind_def)
qed

lemma rfind_none: "c \<notin> set p \<Longrightarrow> rfind c p = - 1"
  by (simp add: rfind_def)

lemma rfind_bounds: "- 1 \<le> rfind c p \<and> rfind c p < int (length p)"
proof (cases "c \<in> set p")
  case True
  then obtain xs ys where "p = xs @ c # ys" "c \<notin> set ys"
    using split_list_last by fastforce
  then show ?thesis by (simp add: rfind_last)
next
  case False
  then show ?thesis by (simp add: rfind_none)
qed

lemma skip_leading_dots_iff:
  "d \<le> length p \<Longrightarrow>
   skip_leading_dots p i d = (\<exists>j. i \<le> j \<and> j < d \<and> p ! j \<noteq> CHR ''.'')"
proof (induction p i d rule: skip_leading_dots.induct)
  case (1 p i d)
  show ?case
  proof (cases "i < d")
    case False
    then show ?thesis by (subst skip_leading_dots.simps) auto
  next
    case True
    then have t: "take 1 (drop i p) = [p ! i]"
      using "1.prems" by (simp add: take_Suc_conv_app_nth)
    show ?thesis
    proof (cases "p ! i = CHR ''.''")
      case False
      then show ?thesis using True t by (subst skip_leading_dots.simps) auto
    next
      case dot: True
      have "skip_leading_dots p i d = skip_leading_dots p (i + 1) d"
        using True t dot by (subst skip_leading_dots.simps) simp
      also have "\<dots> = (\<exists>j. i + 1 \<le> j \<and> j < d \<and> p ! j \<noteq> CHR ''.'')"
        using 1 True t dot by simp
      also have "\<dots> = (\<exists>j. i \<le> j \<and> j < d \<and> p ! j \<noteq> CHR ''.'')"
      proof
        assume "\<exists>j. i + 1 \<le> j \<and> j < d \<and> p ! j \<noteq> CHR ''.''"
        then obtain j where "i + 1 \<le> j" "j < d" "p ! j \<noteq> CHR ''.''" by blast
        then have "i \<le> j \<and> j < d \<and> p ! j \<noteq> CHR ''.''" by simp
        then show "\<exists>j. i \<le> j \<and> j < d \<and> p ! j \<noteq> CHR ''.''" by blast
      next
        assume "\<exists>j. i \<le> j \<and> j < d \<and> p ! j \<noteq> CHR ''.''"
        then obtain j where j: "i \<le> j" "j < d" "p ! j \<noteq> CHR ''.''" by blast
        then have "j \<noteq> i" using dot by auto
        then have "i + 1 \<le> j \<and> j < d \<and> p ! j \<noteq> CHR ''.''" using j by simp
        then show "\<exists>j. i + 1 \<le> j \<and> j < d \<and> p ! j \<noteq> CHR ''.''" by blast
      qed
      finally show ?thesis .
    qed
  qed
qed

text \<open>The path up to and with its last separator, and the file name after it.\<close>

lemma dir_base:
  "\<exists>dir base. p = dir @ base \<and> (dir = [] \<or> last dir = CHR ''/'') \<and> CHR ''/'' \<notin> set base"
proof (cases "CHR ''/'' \<in> set p")
  case True
  then obtain xs ys where "p = xs @ CHR ''/'' # ys" "CHR ''/'' \<notin> set ys"
    using split_list_last by fastforce
  then have "p = (xs @ ''/'') @ ys \<and> last (xs @ ''/'') = CHR ''/'' \<and> CHR ''/'' \<notin> set ys"
    by simp
  then show ?thesis by blast
next
  case False
  then have "p = [] @ p \<and> CHR ''/'' \<notin> set p" by simp
  then show ?thesis by blast
qed

lemma rfind_sep:
  assumes "dir = [] \<or> last dir = CHR ''/''" "CHR ''/'' \<notin> set base"
  shows "rfind (CHR ''/'') (dir @ base) + 1 = int (length dir)"
proof (cases "dir = []")
  case True
  then show ?thesis using assms by (simp add: rfind_none)
next
  case False
  then obtain xs where "dir = xs @ ''/''"
    using assms(1) by (metis append_butlast_last_id)
  then show ?thesis using assms(2) rfind_last[of "CHR ''/''" base xs] by simp
qed

lemma splitext_with_extension:
  assumes "dir = [] \<or> last dir = CHR ''/''" "CHR ''/'' \<notin> set stem"
    and "CHR ''/'' \<notin> set ext" "CHR ''.'' \<notin> set ext"
    and "\<exists>c\<in>set stem. c \<noteq> CHR ''.''"
  shows "splitext (dir @ stem @ CHR ''.'' # ext) = (dir @ stem, CHR ''.'' # ext)"
proof -
  let ?p = "dir @ stem @ CHR ''.'' # ext"
  have dot: "rfind (CHR ''.'') ?p = int (length dir + length stem)"
    using rfind_last[OF assms(4), of "dir @ stem"] by simp
  have sep: "rfind (CHR ''/'') ?p + 1 = int (length dir)"
    using rfind_sep[OF assms(1), of "stem @ CHR ''.'' # ext"] assms(2,3) by simp
  obtain k where k: "k < length stem" "stem ! k \<noteq> CHR ''.''"
    using assms(5) by (metis in_set_conv_nth)
  have "?p ! (length dir + k) = stem ! k"
    using k(1) by (simp add: nth_append)
  then have "\<exists>j. length dir \<le> j \<and> j < length dir + length stem \<and> ?p ! j \<noteq> CHR ''.''"
    using k by (intro exI[of _ "length dir + k"]) simp
  then have skip: "skip_leading_dots ?p (length dir) (length dir + length stem)"
    by (subst skip_leading_dots_iff) simp_all
  have n: "nat (rfind (CHR ''/'') ?p + 1) = length dir"
    using sep by simp
  have dn: "nat (rfind (CHR ''.'') ?p) = length dir + length stem"
    using dot by simp
  have gt: "rfind (CHR ''.'') ?p > rfind (CHR ''/'') ?p"
    using dot sep by simp
  show ?thesis
    unfolding splitext_def Let_def n dn using gt skip by simp
qed

lemma splitext_without_extension:
  assumes "dir = [] \<or> last dir = CHR ''/''" "CHR ''/'' \<notin> set base"
    and "\<forall>stem ext. base = stem @ CHR ''.'' # ext \<and> CHR ''.'' \<notin> set ext
           \<longrightarrow> (\<forall>c\<in>set stem. c = CHR ''.'')"
  shows "splitext (dir @ base) = (dir @ base, [])"
proof (cases "CHR ''.'' \<in> set base")
  case False
  let ?p = "dir @ base"
  have sep: "rfind (CHR ''/'') ?p + 1 = int (length dir)"
    using rfind_sep[OF assms(1,2)] .
  have "rfind (CHR ''.'') ?p \<le> rfind (CHR ''/'') ?p"
  proof (cases "CHR ''.'' \<in> set dir")
    case True
    then obtain xs ys where d: "dir = xs @ CHR ''.'' # ys" "CHR ''.'' \<notin> set ys"
      using split_list_last by fastforce
    then have "rfind (CHR ''.'') ?p = int (length xs)"
      using rfind_last[of "CHR ''.''" "ys @ base" xs] False by simp
    moreover have "length xs < length dir" using d by simp
    ultimately show ?thesis using sep by simp
  next
    case nd: False
    then have "rfind (CHR ''.'') ?p = - 1"
      using False by (simp add: rfind_none)
    then show ?thesis using rfind_bounds[of "CHR ''/''" ?p] by simp
  qed
  then show ?thesis
    by (simp add: splitext_def Let_def)
next
  case True
  then obtain stem ext where b: "base = stem @ CHR ''.'' # ext" "CHR ''.'' \<notin> set ext"
    using split_list_last by fastforce
  then have dots: "\<forall>c\<in>set stem. c = CHR ''.''"
    using assms(3) by blast
  let ?p = "dir @ base"
  have dot: "rfind (CHR ''.'') ?p = int (length dir + length stem)"
    using rfind_last[OF b(2), of "dir @ stem"] b(1) by simp
  have sep: "rfind (CHR ''/'') ?p + 1 = int (length dir)"
    using rfind_sep[OF assms(1,2)] .
  have "\<not> (\<exists>j. length dir \<le> j \<and> j < length dir + length stem \<and> ?p ! j \<noteq> CHR ''.'')"
  proof
    assume "\<exists>j. length dir \<le> j \<and> j < length dir + length stem \<and> ?p ! j \<noteq> CHR ''.''"
    then obtain j where j: "length dir \<le> j" "j < length dir + length stem" "?p ! j \<noteq> CHR ''.''"
      by blast
    have lt: "j - length dir < length stem"
      using j(1,2) by simp
    have "?p ! j = (stem @ CHR ''.'' # ext) ! (j - length dir)"
      using j(1) b(1) by (simp add: nth_append)
    also have "\<dots> = stem ! (j - length dir)"
      using lt by (simp add: nth_append)
    finally have "?p ! j \<in> set stem"
      using lt by simp
    then show False using dots j(3) by blast
  qed
  then have skip: "\<not> skip_leading_dots ?p (length dir) (length dir + length stem)"
    using b(1) by (subst skip_leading_dots_iff) simp_all
  have n: "nat (rfind (CHR ''/'') ?p + 1) = length dir"
    using sep by simp
  have dn: "nat (rfind (CHR ''.'') ?p) = length dir + length stem"
    using dot by simp
  show ?thesis
    unfolding splitext_def Let_def n dn using skip by simp
qed

lemma digit_value_digit_char: "d < 10 \<Longrightarrow> digit_value (digit_char d) = d"
proof -
  assume "d < 10"
  then have "d \<in> {0, 1, 2, 3, 4, 5, 6, 7, 8, 9}" by auto
  then show ?thesis
    by (auto simp add: digit_value_def digit_char_def)
qed

lemma decimal_value_snoc: "decimal_value (s @ [c]) = 10 * decimal_value s + digit_value c"
  by (simp add: decimal_value_def)

lemma decimal_value_py_str_nat: "decimal_value (py_str_nat n) = n"
proof (induction n rule: py_str_nat.induct)
  case (1 n)
  show ?case
  proof (cases "n < 10")
    case True
    then show ?thesis
      by (simp add: py_str_nat_eval decimal_value_def digit_value_digit_char)
  next
    case False
    with 1 show ?thesis
      by (simp add: py_str_nat_eval decimal_value_snoc digit_value_digit_char)
  qed
qed

lemma decimal_value_zeros: "decimal_value (replicate k (CHR ''0'') @ s) = decimal_value s"
proof -
  have z: "digit_value (CHR ''0'') = 0"
    by (simp add: digit_value_def)
  show ?thesis
    by (induction k) (simp_all add: decimal_value_def z)
qed

lemma decimal_value_format_06d: "decimal_value (format_06d n) = n"
  by (simp add: format_06d_def zero_fill_def decimal_value_zeros decimal_value_py_str_nat)

lemma format_06d_inject: "format_06d n = format_06d m \<Longrightarrow> n = m"
  by (metis decimal_value_format_06d)

lemma format_06d_length: "n < 10 ^ 6 \<Longrightarrow> length (format_06d n) = 6"
  using py_str_nat_length[of n 6] by (simp add: format_06d_def zero_fill_length)

lemma format_06d_digits: "list_all is_digit (format_06d n)"
  by (simp add: format_06d_def zero_fill_digits py_str_nat_digits)

lemma format_06d_head: "take 1 (format_06d n @ ''.png'') \<noteq> ''/''"
proof -
  have "format_06d n \<noteq> []"
    by (simp add: format_06d_def zero_fill_def py_str_nat_nonempty)
  then obtain c cs where f: "format_06d n = c # cs" by (cases "format_06d n") auto
  then have "is_digit c" using format_06d_digits[of n] by simp
  then have "c \<noteq> CHR ''/''" by (auto simp add: is_digit_def)
  then show ?thesis by (simp add: f)
qed

lemma path_join_relative:
  "take 1 x \<noteq> ''/'' \<Longrightarrow>
   path_join d x = (if d = [] \<or> last d = CHR ''/'' then d else d @ ''/'') @ x"
  by (simp add: path_join_def)

lemma image_name_eq:
  "image_name d n = (if d = [] \<or> last d = CHR ''/'' then d else d @ ''/'') @ format_06d n @ ''.png''"
  unfolding image_name_def by (rule path_join_relative) (rule format_06d_head)

lemma image_name_inject: "image_name d n = image_name d m \<Longrightarrow> n = m"
  by (simp add: image_name_eq format_06d_inject)

lemma image_dir_eq:
  "path_join out ''image_0'' = (if out = [] \<or> last out = CHR ''/'' then out else out @ ''/'') @ ''image_0''"
  "path_join out ''image_1'' = (if out = [] \<or> last out = CHR ''/'' then out else out @ ''/'') @ ''image_1''"
  by (simp_all add: path_join_def)

lemma image_name_left_right:
  "image_name (path_join out ''image_0'') n \<noteq> image_name (path_join out ''image_1'') m"
  by (simp add: image_name_eq image_dir_eq)

lemma calib_not_image: "path_join d ''calib.txt'' \<noteq> image_name d' n"
proof
  assume "path_join d ''calib.txt'' = image_name d' n"
  then have "last (path_join d ''calib.txt'') = last (path_join d' (format_06d n @ ''.png''))"
    by (simp add: image_name_def)
  then show False by (simp add: last_path_join)
qed

lemma frame_files_left:
  assumes "\<And>i j. image_name a i \<noteq> image_name b j"
  shows "N < K \<Longrightarrow>
     frame_files a b r K (image_name a N)
       = Some (Png (first_3_channels (view_data (frames r N) LEFT)))"
proof (induction K)
  case 0
  then show ?case by simp
next
  case (Suc K)
  show ?case
  proof (cases "N = K")
    case True
    then show ?thesis using assms by simp
  next
    case False
    then have "N < K" using Suc.prems by simp
    moreover have "image_name a N \<noteq> image_name a K"
      using False image_name_inject by blast
    ultimately show ?thesis using Suc.IH assms by simp
  qed
qed

lemma frame_files_right:
  assumes "\<And>i j. image_name a i \<noteq> image_name b j"
  shows "N < K \<Longrightarrow>
     frame_files a b r K (image_name b N)
       = Some (Png (first_3_channels (view_data (frames r N) RIGHT)))"
proof (induction K)
  case 0
  then show ?case by simp
next
  case (Suc K)
  show ?case
  proof (cases "N = K")
    case True
    then show ?thesis by simp
  next
    case False
    then have "N < K" using Suc.prems by simp
    moreover have "image_name b N \<noteq> image_name b K"
      using False image_name_inject by blast
    moreover have "image_name b N \<noteq> image_name a K"
      using assms[of K N] by simp
    ultimately show ?thesis using Suc.IH by simp
  qed
qed

lemma frame_files_other:
  "\<forall>N<K. p \<noteq> image_name a N \<and> p \<noteq> image_name b N \<Longrightarrow> frame_files a b r K p = None"
  by (induction K) simp_all

lemma py_split_lines:
  "\<forall>l\<in>set ls. c \<notin> set l \<Longrightarrow> py_split c (concat (map (\<lambda>l. l @ [c]) ls)) = ls @ [[]]"
  by (induction ls) simp_all

lemma file_lines_concat:
  "\<forall>l\<in>set ls. CHR 0x0A \<notin> set l \<Longrightarrow>
   file_lines (concat (map (\<lambda>l. l @ [CHR 0x0A]) ls)) = ls"
  by (simp add: file_lines_def py_split_lines)

lemma times_text_lines:
  "file_lines (times_text r K) =
     map (\<lambda>i. format_9f (py_float_mul
                 (py_float_of_nat (unat (timestamp_ns (frames r i) IMAGE))) float_1e_9)) [0..<K]"
proof -
  let ?f = "\<lambda>i. format_9f (py_float_mul
                 (py_float_of_nat (unat (timestamp_ns (frames r i) IMAGE))) float_1e_9)"
  have "times_text r K = concat (map (\<lambda>l. l @ [CHR 0x0A]) (map ?f [0..<K]))"
    by (simp add: times_text_def times_line_def comp_def)
  moreover have "\<forall>l\<in>set (map ?f [0..<K]). CHR 0x0A \<notin> set l"
    by simp
  ultimately show ?thesis
    using file_lines_concat[of "map ?f [0..<K]"] by simp
qed

lemma success_times_file:
  "files (success_state r input_file out K st) (path_join out ''times.txt'')
     = Some (Text (times_text r K))"
  using calib_not_times[of out] by (simp add: success_state_def)

lemma success_image_files:
  assumes "N < K"
  shows "files (success_state r input_file out K st) (image_name (path_join out ''image_0'') N)
           = Some (Png (first_3_channels (view_data (frames r N) LEFT)))"
    and "files (success_state r input_file out K st) (image_name (path_join out ''image_1'') N)
           = Some (Png (first_3_channels (view_data (frames r N) RIGHT)))"
proof -
  have d: "\<And>i j. image_name (path_join out ''image_0'') i \<noteq> image_name (path_join out ''image_1'') j"
    by (rule image_name_left_right)
  have n: "\<And>d. image_name d N \<noteq> path_join out ''times.txt''"
    "\<And>d. image_name d N \<noteq> path_join out ''calib.txt''"
    using times_not_image calib_not_image by metis+
  show "files (success_state r input_file out K st) (image_name (path_join out ''image_0'') N)
           = Some (Png (first_3_channels (view_data (frames r N) LEFT)))"
    using frame_files_left[OF d assms, of r] n by (simp add: success_state_def map_add_def)
  show "files (success_state r input_file out K st) (image_name (path_join out ''image_1'') N)
           = Some (Png (first_3_channels (view_data (frames r N) RIGHT)))"
    using frame_files_right[OF d assms, of r] n by (simp add: success_state_def map_add_def)
qed

lemma success_other_files:
  assumes "p \<noteq> path_join out ''times.txt''" "p \<noteq> path_join out ''calib.txt''"
    and "\<forall>N<K. p \<noteq> image_name (path_join out ''image_0'') N
                \<and> p \<noteq> image_name (path_join out ''image_1'') N"
  shows "files (success_state r input_file out K st) p = files st p"
  using assms(1,2) frame_files_other[OF assms(3), of r]
  by (simp add: success_state_def map_add_def)

section \<open>Claims\<close>

lemma main_failure:
  "open_status (disk input_file) \<noteq> SUCCESS \<Longrightarrow>
   main disk input_file od st =
     Some (1, failure_state (disk input_file) input_file (resolve_output_dir input_file od) st)"
  by (simp add: main_def run_failure exit_status_def)

text \<open>
  C1, as the specification states it, fails: when the recording cannot be opened the
  process exits with status 1, but by then the output directory already holds the two
  image directories and \<open>times.txt\<close> (lines 33-36 run before \<open>zed.open\<close>).
\<close>

theorem C1_counterexample:
  "main unreadable_disk ''/data/run1.svo'' None empty_state \<noteq> None
   \<and> fst (the (main unreadable_disk ''/data/run1.svo'' None empty_state)) = 1
   \<and> \<not> nothing_created ''/data/run1_kitti_dataset''
         (snd (the (main unreadable_disk ''/data/run1.svo'' None empty_state)))
   \<and> dir_exists ''/data/run1_kitti_dataset/image_0''
         (snd (the (main unreadable_disk ''/data/run1.svo'' None empty_state)))
   \<and> dir_exists ''/data/run1_kitti_dataset/image_1''
         (snd (the (main unreadable_disk ''/data/run1.svo'' None empty_state)))
   \<and> file_exists ''/data/run1_kitti_dataset/times.txt''
         (snd (the (main unreadable_disk ''/data/run1.svo'' None empty_state)))"
proof -
  have o: "open_status (unreadable_disk ''/data/run1.svo'') \<noteq> SUCCESS"
    by (simp add: unreadable_disk_def unreadable_svo_def)
  have d: "resolve_output_dir ''/data/run1.svo'' None = ''/data/run1_kitti_dataset''"
    by code_simp
  show ?thesis
    by (simp add: main_failure[of unreadable_disk "''/data/run1.svo''", OF o] d failure_state_def nothing_created_def file_exists_def
        dir_exists_def output_dirs_def path_join_def)
qed

text \<open>
  C1, amended: when the recording cannot be opened, the process exits with status 1; at
  that point the directories \<open>image_0\<close> and \<open>image_1\<close> exist in the output
  directory and \<open>times.txt\<close> is there and empty, while \<open>calib.txt\<close> and every
  other file are as they were before the run (no calibration file has been written).
\<close>

theorem C1_open_failure:
  assumes "open_status (disk input_file) \<noteq> SUCCESS"
  shows "\<exists>st'. main disk input_file output_dir st = Some (1, st')
           \<and> dir_exists (path_join (resolve_output_dir input_file output_dir) ''image_0'') st'
           \<and> dir_exists (path_join (resolve_output_dir input_file output_dir) ''image_1'') st'
           \<and> files st' (path_join (resolve_output_dir input_file output_dir) ''times.txt'')
               = Some (Text [])
           \<and> files st' (path_join (resolve_output_dir input_file output_dir) ''calib.txt'')
               = files st (path_join (resolve_output_dir input_file output_dir) ''calib.txt'')
           \<and> (\<forall>p. p \<noteq> path_join (resolve_output_dir input_file output_dir) ''times.txt''
                  \<longrightarrow> files st' p = files st p)"
  using assms
  by (simp add: main_failure failure_state_def dir_exists_def output_dirs_def calib_not_times)

theorem C1_open_failure_witness:
  "open_status (unreadable_disk ''/data/run1.svo'') \<noteq> SUCCESS
   \<and> (\<exists>st'. main unreadable_disk ''/data/run1.svo'' None empty_state = Some (1, st')
         \<and> dir_exists ''/data/run1_kitti_dataset/image_0'' st'
         \<and> dir_exists ''/data/run1_kitti_dataset/image_1'' st'
         \<and> files st' ''/data/run1_kitti_dataset/times.txt'' = Some (Text [])
         \<and> files st' ''/data/run1_kitti_dataset/calib.txt'' = None)"
proof -
  have o: "open_status (unreadable_disk ''/data/run1.svo'') \<noteq> SUCCESS"
    by (simp add: unreadable_disk_def unreadable_svo_def)
  have d: "resolve_output_dir ''/data/run1.svo'' None = ''/data/run1_kitti_dataset''"
    by code_simp
  have e: "files empty_state = Map.empty"
    by (simp add: empty_state_def)
  show ?thesis
    using C1_open_failure[of unreadable_disk "''/data/run1.svo''" None empty_state, OF o] o
    by (auto simp add: d e path_join_def)
qed

text \<open>
  C4: without \<open>--output_dir\<close> the output directory is the input path without its
  extension, followed by \<open>_kitti_dataset\<close>. The extension is what
  \<open>os.path.splitext\<close> cuts off: for every input path, with \<open>base\<close> the part after
  the last separator, either \<open>base\<close> is \<open>stem.ext\<close> with no dot in \<open>ext\<close> and a
  character other than a dot in \<open>stem\<close>, and the directory is the path up to \<open>stem\<close>
  followed by \<open>_kitti_dataset\<close>; or \<open>base\<close> has no such form (it has no dot, or only
  dots before its last dot) and the directory is the whole path followed by
  \<open>_kitti_dataset\<close>. So \<open>/data/run1.svo\<close> gives \<open>/data/run1_kitti_dataset\<close>. A
  given directory is used as it is, and the run is the same as with that directory given.
\<close>

theorem C4_output_dir:
  "resolve_output_dir input_file None = fst (splitext input_file) @ ''_kitti_dataset''
   \<and> fst (splitext input_file) @ snd (splitext input_file) = input_file
   \<and> (\<exists>dir base.
         input_file = dir @ base \<and> (dir = [] \<or> last dir = CHR ''/'') \<and> CHR ''/'' \<notin> set base
       \<and> ((\<exists>stem ext.
              base = stem @ CHR ''.'' # ext \<and> CHR ''.'' \<notin> set ext
            \<and> (\<exists>c\<in>set stem. c \<noteq> CHR ''.'')
            \<and> splitext input_file = (dir @ stem, CHR ''.'' # ext)
            \<and> resolve_output_dir input_file None = dir @ stem @ ''_kitti_dataset'')
          \<or> ((\<forall>stem ext. base = stem @ CHR ''.'' # ext \<and> CHR ''.'' \<notin> set ext
                  \<longrightarrow> (\<forall>c\<in>set stem. c = CHR ''.''))
            \<and> splitext input_file = (input_file, [])
            \<and> resolve_output_dir input_file None = input_file @ ''_kitti_dataset'')))
   \<and> resolve_output_dir ''/data/run1.svo'' None = ''/data/run1_kitti_dataset''
   \<and> resolve_output_dir input_file (Some d) = d
   \<and> zed2_to_kitti disk input_file None st
       = zed2_to_kitti disk input_file (Some (fst (splitext input_file) @ ''_kitti_dataset'')) st"
proof -
  have e: "resolve_output_dir ''/data/run1.svo'' None = ''/data/run1_kitti_dataset''"
    by code_simp
  have a: "fst (splitext input_file) @ snd (splitext input_file) = input_file"
    by (simp add: splitext_def Let_def)
  obtain dir base where db: "input_file = dir @ base" "dir = [] \<or> last dir = CHR ''/''"
    "CHR ''/'' \<notin> set base"
    using dir_base by blast
  have c: "(\<exists>stem ext.
              base = stem @ CHR ''.'' # ext \<and> CHR ''.'' \<notin> set ext
            \<and> (\<exists>c\<in>set stem. c \<noteq> CHR ''.'')
            \<and> splitext input_file = (dir @ stem, CHR ''.'' # ext)
            \<and> resolve_output_dir input_file None = dir @ stem @ ''_kitti_dataset'')
          \<or> ((\<forall>stem ext. base = stem @ CHR ''.'' # ext \<and> CHR ''.'' \<notin> set ext
                  \<longrightarrow> (\<forall>c\<in>set stem. c = CHR ''.''))
            \<and> splitext input_file = (input_file, [])
            \<and> resolve_output_dir input_file None = input_file @ ''_kitti_dataset'')"
  proof (cases "\<exists>stem ext. base = stem @ CHR ''.'' # ext \<and> CHR ''.'' \<notin> set ext
                  \<and> (\<exists>c\<in>set stem. c \<noteq> CHR ''.'')")
    case True
    then obtain stem ext where se: "base = stem @ CHR ''.'' # ext" "CHR ''.'' \<notin> set ext"
      "\<exists>c\<in>set stem. c \<noteq> CHR ''.''"
      by blast
    have "CHR ''/'' \<notin> set stem" "CHR ''/'' \<notin> set ext"
      using db(3) se(1) by simp_all
    then have "splitext input_file = (dir @ stem, CHR ''.'' # ext)"
      using splitext_with_extension[OF db(2) _ _ se(2,3)] db(1) se(1) by simp
    then show ?thesis
      using se by (auto simp add: resolve_output_dir_def)
  next
    case False
    then have n: "\<forall>stem ext. base = stem @ CHR ''.'' # ext \<and> CHR ''.'' \<notin> set ext
                  \<longrightarrow> (\<forall>c\<in>set stem. c = CHR ''.'')"
      by blast
    then have "splitext input_file = (input_file, [])"
      using splitext_without_extension[OF db(2,3)] db(1) by simp
    then show ?thesis
      using n by (simp add: resolve_output_dir_def)
  qed
  have r: "resolve_output_dir input_file None = fst (splitext input_file) @ ''_kitti_dataset''"
    "resolve_output_dir input_file (Some d) = d"
    "zed2_to_kitti disk input_file None st
       = zed2_to_kitti disk input_file (Some (fst (splitext input_file) @ ''_kitti_dataset'')) st"
    by (simp_all add: resolve_output_dir_def zed2_to_kitti_def)
  from db c have "\<exists>dir base.
         input_file = dir @ base \<and> (dir = [] \<or> last dir = CHR ''/'') \<and> CHR ''/'' \<notin> set base
       \<and> ((\<exists>stem ext.
              base = stem @ CHR ''.'' # ext \<and> CHR ''.'' \<notin> set ext
            \<and> (\<exists>c\<in>set stem. c \<noteq> CHR ''.'')
            \<and> splitext input_file = (dir @ stem, CHR ''.'' # ext)
            \<and> resolve_output_dir input_file None = dir @ stem @ ''_kitti_dataset'')
          \<or> ((\<forall>stem ext. base = stem @ CHR ''.'' # ext \<and> CHR ''.'' \<notin> set ext
                  \<longrightarrow> (\<forall>c\<in>set stem. c = CHR ''.''))
            \<and> splitext input_file = (input_file, [])
            \<and> resolve_output_dir input_file None = input_file @ ''_kitti_dataset''))"
    by blast
  with e a r show ?thesis by blast
qed

theorem C4_output_dir_witness:
  "resolve_output_dir ''/data.d/run1.tar.gz'' None = ''/data.d/run1.tar_kitti_dataset''
   \<and> resolve_output_dir ''/data/.hidden'' None = ''/data/.hidden_kitti_dataset''
   \<and> resolve_output_dir ''data.d/run1'' None = ''data.d/run1_kitti_dataset''
   \<and> resolve_output_dir ''/data/run1.svo'' None = ''/data/run1_kitti_dataset''
   \<and> resolve_output_dir ''/data/run1.svo'' (Some ''out'') = ''out''"
proof -
  have s: "splitext ''/data.d/run1.tar.gz'' = (''/data.d/run1.tar'', ''.gz'')"
    "splitext ''/data/.hidden'' = (''/data/.hidden'', [])"
    "splitext ''data.d/run1'' = (''data.d/run1'', [])"
    by code_simp+
  show ?thesis
    using C4_output_dir[where input_file = "''/data.d/run1.tar.gz''" and d = "''out''"
        and disk = example_disk and st = empty_state]
      C4_output_dir[where input_file = "''/data/.hidden''" and d = "''out''"
        and disk = example_disk and st = empty_state]
      C4_output_dir[where input_file = "''data.d/run1''" and d = "''out''"
        and disk = example_disk and st = empty_state]
      C4_output_dir[where input_file = "''/data/run1.svo''" and d = "''out''"
        and disk = example_disk and st = empty_state]
    by (simp add: s)
qed

text \<open>
  C2, as the specification states it, fails: eight of the twelve values of the first line
  and seven of the second are the literals \<open>0.0\<close> and \<open>1.0\<close> of the format string
  (lines 147 and 150), with one digit after the point, not nine.
\<close>

theorem C2_counterexample:
  "zed2_to_kitti example_disk ''/data/run1.svo'' None empty_state \<noteq> None
   \<and> text_of (files (snd (the (zed2_to_kitti example_disk ''/data/run1.svo'' None empty_state)))
        ''/data/run1_kitti_dataset/calib.txt'')
     = ''P0: 700.000000000 0.0 640.000000000 0.0 0.0 700.000000000 360.000000000 0.0 0.0 0.0 1.0 0.0'' @ [CHR 0x0A]
       @ ''P1: 700.000000000 0.0 640.000000000 -84.000000000 0.0 700.000000000 360.000000000 0.0 0.0 0.0 1.0 0.0'' @ [CHR 0x0A]
   \<and> \<not> spec_calib_format
        (text_of (files (snd (the (zed2_to_kitti example_disk ''/data/run1.svo'' None empty_state)))
           ''/data/run1_kitti_dataset/calib.txt''))
   \<and> \<not> fixed_9 ''0.0''"
proof -
  have p: "path_join ''/data/run1_kitti_dataset'' ''calib.txt'' = ''/data/run1_kitti_dataset/calib.txt''"
    by (simp add: path_join_def)
  have t: "text_of (files (snd (the (zed2_to_kitti example_disk ''/data/run1.svo'' None empty_state)))
        ''/data/run1_kitti_dataset/calib.txt'') = calib_text (calibration example_svo METER)"
    using success_calib_file[of example_svo "''/data/run1.svo''" "''/data/run1_kitti_dataset''" 2 empty_state]
    by (simp add: example_run p)
  have n: "\<not> fixed_9 ''0.0''"
    by (simp add: fixed_9_def is_digit_def)
  have f: "fixed_9 ''700.000000000''"
    by (simp add: fixed_9_def is_digit_def)
  have s: "\<not> spec_calib_format (calib_text (calibration example_svo METER))"
    unfolding example_calib_text
    by (simp add: spec_calib_format_def file_lines_def spec_calib_line_def n f)
  have nn: "zed2_to_kitti example_disk ''/data/run1.svo'' None empty_state \<noteq> None"
    by (simp add: example_run)
  show ?thesis
    using s n nn by (simp add: t example_calib_text)
qed

text \<open>
  C2, amended: for every run that reaches the calibration writer, \<open>calib.txt\<close> has
  exactly two lines; each is its label (\<open>P0:\<close>, \<open>P1:\<close>) followed by exactly 12 values
  separated by single spaces. The values taken from the calibration (\<open>fx\<close>, \<open>cx\<close>,
  \<open>fy\<close>, \<open>cy\<close>, and \<open>tx\<close> in the second line) are written with the format
  \<open>.9f\<close>, which gives exactly 9 digits after the point for every finite value; the
  other values are the literals \<open>0.0\<close> and \<open>1.0\<close>.
\<close>

theorem C2_calib_format:
  assumes "open_status (disk input_file) = SUCCESS"
    and "\<forall>i<K. grab_status (disk input_file) i = SUCCESS"
    and "grab_status (disk input_file) K \<noteq> SUCCESS"
  shows "\<exists>st' l0 l1.
           zed2_to_kitti disk input_file output_dir st = Some (Returned, st')
         \<and> file_lines (text_of (files st'
               (path_join (resolve_output_dir input_file output_dir) ''calib.txt''))) = [l0, l1]
         \<and> py_split (CHR '' '') l0 = ''P0:'' # P0_values (calibration (disk input_file) METER)
         \<and> py_split (CHR '' '') l1 = ''P1:'' # P1_values (calibration (disk input_file) METER)
         \<and> length (P0_values (calibration (disk input_file) METER)) = 12
         \<and> length (P1_values (calibration (disk input_file) METER)) = 12
         \<and> (\<forall>x. is_finite x \<longrightarrow> fixed_9 (format_9f x))"
proof -
  obtain l0 l1 where "file_lines (calib_text (calibration (disk input_file) METER)) = [l0, l1]"
    "py_split (CHR '' '') l0 = ''P0:'' # P0_values (calibration (disk input_file) METER)"
    "py_split (CHR '' '') l1 = ''P1:'' # P1_values (calibration (disk input_file) METER)"
    using calib_text_lines by blast
  then show ?thesis
    using run_success[of disk input_file K output_dir st] assms
    by (simp add: success_calib_file format_9f_fixed P0_values_def P1_values_def)
qed

theorem C2_calib_format_witness:
  "open_status (example_disk ''/data/run1.svo'') = SUCCESS
   \<and> grab_status (example_disk ''/data/run1.svo'') 0 = SUCCESS
   \<and> grab_status (example_disk ''/data/run1.svo'') 1 = SUCCESS
   \<and> grab_status (example_disk ''/data/run1.svo'') 2 \<noteq> SUCCESS
   \<and> (\<exists>st' l0 l1.
         zed2_to_kitti example_disk ''/data/run1.svo'' None empty_state = Some (Returned, st')
       \<and> file_lines (text_of (files st' ''/data/run1_kitti_dataset/calib.txt'')) = [l0, l1]
       \<and> py_split (CHR '' '') l0 =
           [''P0:'', ''700.000000000'', ''0.0'', ''640.000000000'', ''0.0'', ''0.0'',
            ''700.000000000'', ''360.000000000'', ''0.0'', ''0.0'', ''0.0'', ''1.0'', ''0.0'']
       \<and> py_split (CHR '' '') l1 =
           [''P1:'', ''700.000000000'', ''0.0'', ''640.000000000'', ''-84.000000000'', ''0.0'',
            ''700.000000000'', ''360.000000000'', ''0.0'', ''0.0'', ''0.0'', ''1.0'', ''0.0'']
       \<and> fixed_9 ''-84.000000000'')"
proof -
  have h: "open_status (example_disk ''/data/run1.svo'') = SUCCESS"
    "\<forall>i<2. grab_status (example_disk ''/data/run1.svo'') i = SUCCESS"
    "grab_status (example_disk ''/data/run1.svo'') 2 \<noteq> SUCCESS"
    by (simp_all add: example_disk_def example_svo_def example_grab_status_def)
  have p: "path_join ''/data/run1_kitti_dataset'' ''calib.txt'' = ''/data/run1_kitti_dataset/calib.txt''"
    by (simp add: path_join_def)
  have v: "P0_values (calibration (example_disk ''/data/run1.svo'') METER) =
      [''700.000000000'', ''0.0'', ''640.000000000'', ''0.0'', ''0.0'',
       ''700.000000000'', ''360.000000000'', ''0.0'', ''0.0'', ''0.0'', ''1.0'', ''0.0'']"
    "P1_values (calibration (example_disk ''/data/run1.svo'') METER) =
      [''700.000000000'', ''0.0'', ''640.000000000'', ''-84.000000000'', ''0.0'',
       ''700.000000000'', ''360.000000000'', ''0.0'', ''0.0'', ''0.0'', ''1.0'', ''0.0'']"
    by (simp_all add: P0_values_def P1_values_def example_disk_def example_calibration_value
        example_tx example_formats)
  have f: "format_9f (Finite True 21 2) = ''-84.000000000''" "is_finite (Finite True 21 2)"
    by (simp_all add: example_formats is_finite_def)
  show ?thesis
    using C2_calib_format[of example_disk "''/data/run1.svo''" 2 None empty_state, OF h] h f
    by (fastforce simp add: example_output_dir p v)
qed

text \<open>
  C3: in every run that reaches the calibration writer, the fourth value of the second
  line of \<open>calib.txt\<close> is \<open>tx = -fx_left * baseline\<close> (the float product of the negated
  left focal length and the first component of the stereo translation) in the format
  \<open>.9f\<close>. For \<open>fx_left = 700.0\<close> and \<open>baseline = 0.12\<close> the product is \<open>-84.0\<close>
  and its text \<open>-84.000000000\<close>.
\<close>

theorem C3_tx:
  assumes "open_status (disk input_file) = SUCCESS"
    and "\<forall>i<K. grab_status (disk input_file) i = SUCCESS"
    and "grab_status (disk input_file) K \<noteq> SUCCESS"
  shows "(\<exists>st' l0 l1.
            zed2_to_kitti disk input_file output_dir st = Some (Returned, st')
          \<and> file_lines (text_of (files st'
                (path_join (resolve_output_dir input_file output_dir) ''calib.txt''))) = [l0, l1]
          \<and> take 1 (py_split (CHR '' '') l1) = [''P1:'']
          \<and> tl (py_split (CHR '' '') l1) ! 3 =
              format_9f (py_float_mul
                (py_float_neg (fx (left_cam (calibration (disk input_file) METER))))
                (fst (stereo_translation (calibration (disk input_file) METER)))))
       \<and> py_float_mul (py_float_neg (py_float_literal False 700 1)) (py_float_literal False 12 100)
           = py_float_literal True 84 1
       \<and> format_9f (py_float_mul (py_float_neg (py_float_literal False 700 1))
           (py_float_literal False 12 100)) = ''-84.000000000''"
proof -
  obtain l0 l1 where "file_lines (calib_text (calibration (disk input_file) METER)) = [l0, l1]"
    "py_split (CHR '' '') l1 = ''P1:'' # P1_values (calibration (disk input_file) METER)"
    using calib_text_lines by blast
  then have a: "\<exists>st' l0 l1.
           zed2_to_kitti disk input_file output_dir st = Some (Returned, st')
         \<and> file_lines (text_of (files st'
               (path_join (resolve_output_dir input_file output_dir) ''calib.txt''))) = [l0, l1]
         \<and> take 1 (py_split (CHR '' '') l1) = [''P1:'']
         \<and> tl (py_split (CHR '' '') l1) ! 3 =
             format_9f (py_float_mul
               (py_float_neg (fx (left_cam (calibration (disk input_file) METER))))
               (fst (stereo_translation (calibration (disk input_file) METER))))"
    using run_success[of disk input_file K output_dir st] assms
    by (simp add: success_calib_file P1_values_def)
  have b: "py_float_mul (py_float_neg (py_float_literal False 700 1)) (py_float_literal False 12 100)
           = py_float_literal True 84 1"
    by (simp only: literal_700 literal_012 literal_minus_84 py_float_neg.simps example_tx
        simp_thms)
  have c: "format_9f (py_float_mul (py_float_neg (py_float_literal False 700 1))
           (py_float_literal False 12 100)) = ''-84.000000000''"
    by (simp only: b literal_minus_84 example_formats)
  from a b c show ?thesis by blast
qed

theorem C3_tx_witness:
  "open_status (example_disk ''/data/run1.svo'') = SUCCESS
   \<and> grab_status (example_disk ''/data/run1.svo'') 0 = SUCCESS
   \<and> grab_status (example_disk ''/data/run1.svo'') 1 = SUCCESS
   \<and> grab_status (example_disk ''/data/run1.svo'') 2 \<noteq> SUCCESS
   \<and> fx (left_cam (calibration (example_disk ''/data/run1.svo'') METER))
       = py_float_literal False 700 1
   \<and> fst (stereo_translation (calibration (example_disk ''/data/run1.svo'') METER))
       = py_float_literal False 12 100
   \<and> (\<exists>st' l0 l1.
         zed2_to_kitti example_disk ''/data/run1.svo'' None empty_state = Some (Returned, st')
       \<and> file_lines (text_of (files st' ''/data/run1_kitti_dataset/calib.txt'')) = [l0, l1]
       \<and> take 1 (py_split (CHR '' '') l1) = [''P1:'']
       \<and> tl (py_split (CHR '' '') l1) ! 3 = ''-84.000000000'')"
proof -
  have h: "open_status (example_disk ''/data/run1.svo'') = SUCCESS"
    "\<forall>i<2. grab_status (example_disk ''/data/run1.svo'') i = SUCCESS"
    "grab_status (example_disk ''/data/run1.svo'') 2 \<noteq> SUCCESS"
    by (simp_all add: example_disk_def example_svo_def example_grab_status_def)
  have p: "path_join ''/data/run1_kitti_dataset'' ''calib.txt'' = ''/data/run1_kitti_dataset/calib.txt''"
    by (simp add: path_join_def)
  have v: "fx (left_cam (calibration (example_disk ''/data/run1.svo'') METER))
       = py_float_literal False 700 1"
    "fst (stereo_translation (calibration (example_disk ''/data/run1.svo'') METER))
       = py_float_literal False 12 100"
    by (simp_all only: literal_700 literal_012 example_disk_def example_calibration_value
        camera_parameters.simps calibration_parameters.simps fst_conv)
  have t: "format_9f (py_float_mul
      (py_float_neg (fx (left_cam (calibration (example_disk ''/data/run1.svo'') METER))))
      (fst (stereo_translation (calibration (example_disk ''/data/run1.svo'') METER))))
      = ''-84.000000000''"
    by (simp add: example_disk_def example_calibration_value example_tx example_formats)
  show ?thesis
    using C3_tx[of example_disk "''/data/run1.svo''" 2 None empty_state, OF h] h v
    unfolding t example_output_dir p
    by (simp add: numeral_2_eq_2 less_Suc_eq)
qed



text \<open>
  C9: in every run that opens the recording, the calls on the handle are \<open>open\<close>, then
  the four calls of \<open>get_camera_information\<close> that give the camera parameters and the
  baseline, then the calls of the loop, starting with a \<open>grab\<close>, and last \<open>close\<close>:
  the calibration is read before the loop and while the handle is open, and nothing is
  read from the handle after \<open>close\<close>. The calibration file holds the values of the
  open recording; the closed handle would give an empty block.
\<close>

theorem C9_calibration_before_close:
  assumes "open_status (disk input_file) = SUCCESS"
    and "\<forall>i<K. grab_status (disk input_file) i = SUCCESS"
    and "grab_status (disk input_file) K \<noteq> SUCCESS"
  shows "\<exists>st' rest.
           zed2_to_kitti disk input_file output_dir st = Some (Returned, st')
         \<and> sdk_calls (drop (length (trace st)) (trace st')) =
             [Call_open (the_init_params input_file), Call_get_camera_information,
              Call_get_camera_information, Call_get_camera_information,
              Call_get_camera_information] @ rest @ [Call_close]
         \<and> hd rest = Call_grab
         \<and> Call_get_camera_information \<notin> set rest
         \<and> Call_close \<notin> set rest
         \<and> files st' (path_join (resolve_output_dir input_file output_dir) ''calib.txt'')
             = Some (Text (calib_text (calibration (disk input_file) METER)))
         \<and> cam_svo (zed st') = None
         \<and> fst (get_camera_information (zed st')) = zero_calibration"
proof -
  let ?st' = "success_state (disk input_file) input_file
                (resolve_output_dir input_file output_dir) K st"
  let ?rest = "concat (replicate K frame_calls) @ [Call_grab]"
  have "zed2_to_kitti disk input_file output_dir st = Some (Returned, ?st')"
    using run_success[of disk input_file K output_dir st] assms by simp
  moreover have "sdk_calls (drop (length (trace st)) (trace ?st')) =
             [Call_open (the_init_params input_file), Call_get_camera_information,
              Call_get_camera_information, Call_get_camera_information,
              Call_get_camera_information] @ ?rest @ [Call_close]"
    by (simp add: sdk_calls_success numeral_eq_Suc)
  moreover have "fst (get_camera_information (zed ?st')) = zero_calibration"
    by (simp add: success_zed get_camera_information_def)
  ultimately show ?thesis
    using frame_calls_set[of K] success_calib_file success_zed
    by (intro exI[of _ ?st'] exI[of _ ?rest]) simp
qed

theorem C9_calibration_before_close_witness:
  "open_status (example_disk ''/data/run1.svo'') = SUCCESS
   \<and> grab_status (example_disk ''/data/run1.svo'') 0 = SUCCESS
   \<and> grab_status (example_disk ''/data/run1.svo'') 1 = SUCCESS
   \<and> grab_status (example_disk ''/data/run1.svo'') 2 \<noteq> SUCCESS
   \<and> (\<exists>st' rest.
         zed2_to_kitti example_disk ''/data/run1.svo'' None empty_state = Some (Returned, st')
       \<and> sdk_calls (trace st') =
             [Call_open (the_init_params ''/data/run1.svo''), Call_get_camera_information,
              Call_get_camera_information, Call_get_camera_information,
              Call_get_camera_information] @ rest @ [Call_close]
       \<and> hd rest = Call_grab
       \<and> Call_get_camera_information \<notin> set rest
       \<and> files st' ''/data/run1_kitti_dataset/calib.txt''
             = Some (Text (calib_text (calibration example_svo METER))))"
proof -
  have e: "trace empty_state = []"
    by (simp add: empty_state_def)
  have d: "example_disk ''/data/run1.svo'' = example_svo"
    by (simp add: example_disk_def)
  show ?thesis
    using C9_calibration_before_close[of example_disk "''/data/run1.svo''" 2 None empty_state,
        OF example_K] example_K[of "''/data/run1.svo''"]
    unfolding example_output_dir example_paths e d
    by (auto simp add: numeral_2_eq_2 less_Suc_eq)
qed

text \<open>
  C10: the calibration file depends on the calibration block alone. Two runs on
  recordings with the same calibration block, whatever their frames and however many,
  whatever the state of the filesystem before, write the same \<open>calib.txt\<close>: two
  lines, the twelve values of \<open>P0\<close> and of \<open>P1\<close>. The number of frames may be zero.
\<close>

theorem C10_calib_depends_on_calibration_only:
  assumes "open_status (disk1 input1) = SUCCESS"
    and "\<forall>i<K1. grab_status (disk1 input1) i = SUCCESS"
    and "grab_status (disk1 input1) K1 \<noteq> SUCCESS"
    and "open_status (disk2 input2) = SUCCESS"
    and "\<forall>i<K2. grab_status (disk2 input2) i = SUCCESS"
    and "grab_status (disk2 input2) K2 \<noteq> SUCCESS"
    and "calibration (disk1 input1) METER = calibration (disk2 input2) METER"
  shows "\<exists>st1' st2' l0 l1.
           zed2_to_kitti disk1 input1 od1 st1 = Some (Returned, st1')
         \<and> zed2_to_kitti disk2 input2 od2 st2 = Some (Returned, st2')
         \<and> files st1' (path_join (resolve_output_dir input1 od1) ''calib.txt'')
             = files st2' (path_join (resolve_output_dir input2 od2) ''calib.txt'')
         \<and> files st1' (path_join (resolve_output_dir input1 od1) ''calib.txt'')
             = Some (Text (calib_text (calibration (disk1 input1) METER)))
         \<and> file_lines (calib_text (calibration (disk1 input1) METER)) = [l0, l1]
         \<and> py_split (CHR '' '') l0 = ''P0:'' # P0_values (calibration (disk1 input1) METER)
         \<and> py_split (CHR '' '') l1 = ''P1:'' # P1_values (calibration (disk1 input1) METER)"
proof -
  obtain l0 l1 where "file_lines (calib_text (calibration (disk1 input1) METER)) = [l0, l1]"
    "py_split (CHR '' '') l0 = ''P0:'' # P0_values (calibration (disk1 input1) METER)"
    "py_split (CHR '' '') l1 = ''P1:'' # P1_values (calibration (disk1 input1) METER)"
    using calib_text_lines by blast
  then show ?thesis
    using run_success[of disk1 input1 K1 od1 st1] run_success[of disk2 input2 K2 od2 st2] assms
    by (simp add: success_calib_file)
qed

theorem C10_calib_depends_on_calibration_only_witness:
  "open_status (no_frames_disk ''/data/empty.svo'') = SUCCESS
   \<and> grab_status (no_frames_disk ''/data/empty.svo'') 0 \<noteq> SUCCESS
   \<and> open_status (example_disk ''/data/run1.svo'') = SUCCESS
   \<and> grab_status (example_disk ''/data/run1.svo'') 0 = SUCCESS
   \<and> grab_status (example_disk ''/data/run1.svo'') 1 = SUCCESS
   \<and> grab_status (example_disk ''/data/run1.svo'') 2 \<noteq> SUCCESS
   \<and> calibration (no_frames_disk ''/data/empty.svo'') METER
       = calibration (example_disk ''/data/run1.svo'') METER
   \<and> (\<exists>st1' st2'.
         zed2_to_kitti no_frames_disk ''/data/empty.svo'' (Some ''out'') empty_state
           = Some (Returned, st1')
       \<and> zed2_to_kitti example_disk ''/data/run1.svo'' None empty_state = Some (Returned, st2')
       \<and> files st1' ''out/calib.txt'' = files st2' ''/data/run1_kitti_dataset/calib.txt''
       \<and> file_lines (text_of (files st1' ''out/calib.txt'')) =
           [''P0: 700.000000000 0.0 640.000000000 0.0 0.0 700.000000000 360.000000000 0.0 0.0 0.0 1.0 0.0'',
            ''P1: 700.000000000 0.0 640.000000000 -84.000000000 0.0 700.000000000 360.000000000 0.0 0.0 0.0 1.0 0.0''])"
proof -
  have n: "open_status (no_frames_disk ''/data/empty.svo'') = SUCCESS"
    "\<forall>i<0. grab_status (no_frames_disk ''/data/empty.svo'') i = SUCCESS"
    "grab_status (no_frames_disk ''/data/empty.svo'') 0 \<noteq> SUCCESS"
    "calibration (no_frames_disk ''/data/empty.svo'') METER
       = calibration (example_disk ''/data/run1.svo'') METER"
    by (simp_all add: no_frames_disk_def no_frames_svo_def no_frames_status_def example_svo_def
        example_disk_def)
  have p: "path_join ''out'' ''calib.txt'' = ''out/calib.txt''"
    "resolve_output_dir ''/data/empty.svo'' (Some ''out'') = ''out''"
    by (simp_all add: path_join_def resolve_output_dir_def)
  have d: "example_disk ''/data/run1.svo'' = example_svo"
    by (simp add: example_disk_def)
  have l: "file_lines (calib_text (calibration example_svo METER)) =
           [''P0: 700.000000000 0.0 640.000000000 0.0 0.0 700.000000000 360.000000000 0.0 0.0 0.0 1.0 0.0'',
            ''P1: 700.000000000 0.0 640.000000000 -84.000000000 0.0 700.000000000 360.000000000 0.0 0.0 0.0 1.0 0.0'']"
    unfolding example_calib_text by (simp add: file_lines_def)
  obtain st1' st2' where r:
    "zed2_to_kitti no_frames_disk ''/data/empty.svo'' (Some ''out'') empty_state
       = Some (Returned, st1')"
    "zed2_to_kitti example_disk ''/data/run1.svo'' None empty_state = Some (Returned, st2')"
    "files st1' ''out/calib.txt'' = files st2' ''/data/run1_kitti_dataset/calib.txt''"
    "files st1' ''out/calib.txt'' = Some (Text (calib_text (calibration example_svo METER)))"
    using C10_calib_depends_on_calibration_only[of no_frames_disk "''/data/empty.svo''" 0
        example_disk "''/data/run1.svo''" 2 "Some ''out''" empty_state None empty_state,
        OF n(1,2,3) example_K n(4)]
    unfolding example_output_dir example_paths p n(4) d
    by blast
  have "file_lines (text_of (files st1' ''out/calib.txt'')) =
           [''P0: 700.000000000 0.0 640.000000000 0.0 0.0 700.000000000 360.000000000 0.0 0.0 0.0 1.0 0.0'',
            ''P1: 700.000000000 0.0 640.000000000 -84.000000000 0.0 700.000000000 360.000000000 0.0 0.0 0.0 1.0 0.0'']"
    using l by (simp add: r(4))
  with r(1,2,3) have "\<exists>st1' st2'.
         zed2_to_kitti no_frames_disk ''/data/empty.svo'' (Some ''out'') empty_state
           = Some (Returned, st1')
       \<and> zed2_to_kitti example_disk ''/data/run1.svo'' None empty_state = Some (Returned, st2')
       \<and> files st1' ''out/calib.txt'' = files st2' ''/data/run1_kitti_dataset/calib.txt''
       \<and> file_lines (text_of (files st1' ''out/calib.txt'')) =
           [''P0: 700.000000000 0.0 640.000000000 0.0 0.0 700.000000000 360.000000000 0.0 0.0 0.0 1.0 0.0'',
            ''P1: 700.000000000 0.0 640.000000000 -84.000000000 0.0 700.000000000 360.000000000 0.0 0.0 0.0 1.0 0.0'']"
    by blast
  then show ?thesis
    using n(1,3,4) example_K[of "''/data/run1.svo''"]
    by (simp add: numeral_2_eq_2 less_Suc_eq)
qed





end
